theory Spec2Isabelle
  imports Complex_Main "HOL-Library.Word" "HOL-Library.Monad_Syntax"
begin

unbundle bit_operations_syntax

section \<open>Numbers of the C sources\<close>

text \<open>
  The sources compute in C \<^verbatim>\<open>float\<close>. Here a float is the real number it stands for:
  arithmetic is exact, a decimal literal such as \<^verbatim>\<open>1e-20f\<close> or \<^verbatim>\<open>0.08f\<close> is its decimal
  value, and \<^verbatim>\<open>M_PI\<close> is \<open>pi\<close>. Rounding, signed zeros and NaN have no counterpart.
  Overflow is kept as a magnitude test: a real beyond \<open>FLT_MAX\<close> stands for a float that
  has overflowed to an infinity, so \<open>isfinite\<close> is a bound on the magnitude.
  Integers of a fixed width are words. A pointer to the filter structure is written \<open>flt\<close>.
  The ranges of the angles depend on rounding: the conversion to Euler angles and
  \<^verbatim>\<open>wrap360\<close> are given a second time, in binary32 arithmetic, in the section on the
  arithmetic of the angle conversions, and the properties of the angles are about that
  second reading.
\<close>

type_synonym float = real

definition FLT_MAX :: float where
  "FLT_MAX = 340282346638528859811704183484516925440"

definition isfinite :: "float \<Rightarrow> bool" where
  "isfinite x = (\<bar>x\<bar> \<le> FLT_MAX)"

definition fabsf :: "float \<Rightarrow> float" where
  "fabsf x = \<bar>x\<bar>"

definition fabs :: "float \<Rightarrow> float" where
  "fabs x = \<bar>x\<bar>"

definition sqrtf :: "float \<Rightarrow> float" where
  "sqrtf x = sqrt x"

text \<open>
  The other functions of the C library that the sources call, by their mathematical
  definition: \<^verbatim>\<open>asinf\<close> (called only on arguments inside \<open>(-1, 1)\<close>), \<^verbatim>\<open>copysignf\<close>
  and the four-quadrant \<^verbatim>\<open>atan2f\<close>, whose value at \<open>(0, 0)\<close> is 0.
\<close>

definition asinf :: "float \<Rightarrow> float" where
  "asinf v = arcsin v"

definition copysignf :: "float \<Rightarrow> float \<Rightarrow> float" where
  "copysignf v s = (if s < 0 then - \<bar>v\<bar> else \<bar>v\<bar>)"

definition atan2f :: "float \<Rightarrow> float \<Rightarrow> float" where
  "atan2f v u =
     (if 0 < u then arctan (v / u)
      else if u < 0 then (if 0 \<le> v then arctan (v / u) + pi else arctan (v / u) - pi)
      else if 0 < v then pi / 2
      else if v < 0 then - (pi / 2)
      else 0)"


section \<open>ICM20948 driver\<close>

text \<open>
  The enumerations \<^verbatim>\<open>GyroRange\<close> and \<^verbatim>\<open>AccelRange\<close> of icm20948\_sensor.h. A C
  enumeration is an integer type, so a range argument can hold a value that is none of
  the four enumerators; the \<^verbatim>\<open>default\<close> branches of the conversions are for those.
\<close>

type_synonym GyroRange = int
type_synonym AccelRange = int

definition GYRO_RANGE_250DPS :: GyroRange where "GYRO_RANGE_250DPS = 0"
definition GYRO_RANGE_500DPS :: GyroRange where "GYRO_RANGE_500DPS = 1"
definition GYRO_RANGE_1000DPS :: GyroRange where "GYRO_RANGE_1000DPS = 2"
definition GYRO_RANGE_2000DPS :: GyroRange where "GYRO_RANGE_2000DPS = 3"

definition ACCEL_RANGE_2G :: AccelRange where "ACCEL_RANGE_2G = 0"
definition ACCEL_RANGE_4G :: AccelRange where "ACCEL_RANGE_4G = 1"
definition ACCEL_RANGE_8G :: AccelRange where "ACCEL_RANGE_8G = 2"
definition ACCEL_RANGE_16G :: AccelRange where "ACCEL_RANGE_16G = 3"

text \<open>\<^verbatim>\<open>SensorData\<close>: three \<^verbatim>\<open>int16_t\<close> fields \<^verbatim>\<open>x\<close>, \<^verbatim>\<open>y\<close>, \<^verbatim>\<open>z\<close>.\<close>

record SensorData =
  sd_x :: "16 word"
  sd_y :: "16 word"
  sd_z :: "16 word"

definition ICM20948_BANK_0 :: "8 word" where "ICM20948_BANK_0 = 0"
definition ICM20948_ACCEL_XOUT_H :: "8 word" where "ICM20948_ACCEL_XOUT_H = 0x2D"
definition ICM20948_GYRO_XOUT_H :: "8 word" where "ICM20948_GYRO_XOUT_H = 0x33"
definition ICM20948_EXT_SLV_SENS_DATA_00 :: "8 word" where "ICM20948_EXT_SLV_SENS_DATA_00 = 0x3B"
definition ICM20948_REG_BANK_SEL :: "8 word" where "ICM20948_REG_BANK_SEL = 0x7F"

text \<open>
  The state of the driver: the cached bank \<^verbatim>\<open>current_bank\<close> (0xFF before the first
  selection) and, for the device side, the frames written to the SPI bus so far. The
  bytes that the device clocks back during a read are an input \<open>miso\<close> of each read
  function: \<open>miso i\<close> is the byte that lands in \<^verbatim>\<open>buffer[i]\<close>. Chip-select toggling and
  the microsecond delays are left out.
\<close>

record icm20948 =
  current_bank :: "8 word"
  spi_written :: "8 word list list"

definition select_bank :: "8 word \<Rightarrow> icm20948 \<Rightarrow> icm20948" where
  "select_bank bank dev =
     (if bank = current_bank dev then dev
      else dev\<lparr>spi_written := spi_written dev @ [[ICM20948_REG_BANK_SEL, push_bit 4 bank]],
               current_bank := bank\<rparr>)"

definition read_registers ::
  "8 word \<Rightarrow> nat \<Rightarrow> (nat \<Rightarrow> 8 word) \<Rightarrow> icm20948 \<Rightarrow> (nat \<Rightarrow> 8 word) \<times> icm20948" where
  "read_registers reg len miso dev =
     (miso, dev\<lparr>spi_written := spi_written dev @ [[reg OR 0x80]]\<rparr>)"

text \<open>The expression \<^verbatim>\<open>(int16_t)((hi << 8) | lo)\<close> that combines two bytes.\<close>

definition int16_of :: "8 word \<Rightarrow> 8 word \<Rightarrow> 16 word" where
  "int16_of hi lo = push_bit 8 (ucast hi) OR ucast lo"

text \<open>
  The read functions. The argument \<open>data\<close> is the pointer: \<open>None\<close> is \<^verbatim>\<open>NULL\<close>, and
  \<open>Some d\<close> points to a structure holding \<open>d\<close>. The result is the returned \<^verbatim>\<open>bool\<close>,
  the structure behind the pointer afterwards, and the driver state. The two pointers
  of \<^verbatim>\<open>icm20948_read_accel_gyro\<close> are taken to point to different structures.
\<close>

definition icm20948_read_accel ::
  "SensorData option \<Rightarrow> (nat \<Rightarrow> 8 word) \<Rightarrow> icm20948 \<Rightarrow> bool \<times> SensorData option \<times> icm20948" where
  "icm20948_read_accel data miso dev =
     (if data = None then (False, data, dev)
      else
        let dev = select_bank ICM20948_BANK_0 dev;
            (buffer, dev) = read_registers ICM20948_ACCEL_XOUT_H 6 miso dev
        in (True,
            Some \<lparr>sd_x = int16_of (buffer 0) (buffer 1),
                  sd_y = int16_of (buffer 2) (buffer 3),
                  sd_z = int16_of (buffer 4) (buffer 5)\<rparr>,
            dev))"

definition icm20948_read_gyro ::
  "SensorData option \<Rightarrow> (nat \<Rightarrow> 8 word) \<Rightarrow> icm20948 \<Rightarrow> bool \<times> SensorData option \<times> icm20948" where
  "icm20948_read_gyro data miso dev =
     (if data = None then (False, data, dev)
      else
        let dev = select_bank ICM20948_BANK_0 dev;
            (buffer, dev) = read_registers ICM20948_GYRO_XOUT_H 6 miso dev
        in (True,
            Some \<lparr>sd_x = int16_of (buffer 0) (buffer 1),
                  sd_y = int16_of (buffer 2) (buffer 3),
                  sd_z = int16_of (buffer 4) (buffer 5)\<rparr>,
            dev))"

definition icm20948_read_accel_gyro ::
  "SensorData option \<Rightarrow> SensorData option \<Rightarrow> (nat \<Rightarrow> 8 word) \<Rightarrow> icm20948 \<Rightarrow>
   bool \<times> SensorData option \<times> SensorData option \<times> icm20948" where
  "icm20948_read_accel_gyro accel gyro miso dev =
     (if accel = None \<or> gyro = None then (False, accel, gyro, dev)
      else
        let dev = select_bank ICM20948_BANK_0 dev;
            (buffer, dev) = read_registers ICM20948_ACCEL_XOUT_H 12 miso dev
        in (True,
            Some \<lparr>sd_x = int16_of (buffer 0) (buffer 1),
                  sd_y = int16_of (buffer 2) (buffer 3),
                  sd_z = int16_of (buffer 4) (buffer 5)\<rparr>,
            Some \<lparr>sd_x = int16_of (buffer 6) (buffer 7),
                  sd_y = int16_of (buffer 8) (buffer 9),
                  sd_z = int16_of (buffer 10) (buffer 11)\<rparr>,
            dev))"

definition icm20948_read_mag ::
  "SensorData option \<Rightarrow> (nat \<Rightarrow> 8 word) \<Rightarrow> icm20948 \<Rightarrow> bool \<times> SensorData option \<times> icm20948" where
  "icm20948_read_mag data miso dev =
     (if data = None then (False, data, dev)
      else
        let dev = select_bank ICM20948_BANK_0 dev;
            (buffer, dev) = read_registers ICM20948_EXT_SLV_SENS_DATA_00 8 miso dev
        in if buffer 0 AND 0x01 = 0 then (False, data, dev)
           else if buffer 7 AND 0x08 \<noteq> 0 then (False, data, dev)
           else (True,
                 Some \<lparr>sd_x = int16_of (buffer 2) (buffer 1),
                       sd_y = int16_of (buffer 4) (buffer 3),
                       sd_z = int16_of (buffer 6) (buffer 5)\<rparr>,
                 dev))"

text \<open>Raw-to-physical conversions; \<^verbatim>\<open>(float)raw_value\<close> is the signed value of the word.\<close>

definition icm20948_accel_to_g :: "16 word \<Rightarrow> AccelRange \<Rightarrow> float" where
  "icm20948_accel_to_g raw_value rng =
     (let sensitivity =
            (if rng = ACCEL_RANGE_2G then 16384
             else if rng = ACCEL_RANGE_4G then 8192
             else if rng = ACCEL_RANGE_8G then 4096
             else if rng = ACCEL_RANGE_16G then 2048
             else 8192)
      in real_of_int (sint raw_value) / sensitivity)"

definition icm20948_gyro_to_dps :: "16 word \<Rightarrow> GyroRange \<Rightarrow> float" where
  "icm20948_gyro_to_dps raw_value rng =
     (let sensitivity =
            (if rng = GYRO_RANGE_250DPS then 131
             else if rng = GYRO_RANGE_500DPS then 65.5
             else if rng = GYRO_RANGE_1000DPS then 32.8
             else if rng = GYRO_RANGE_2000DPS then 16.4
             else 65.5)
      in real_of_int (sint raw_value) / sensitivity)"

definition icm20948_mag_to_ut :: "16 word \<Rightarrow> float" where
  "icm20948_mag_to_ut raw_value = real_of_int (sint raw_value) * 0.15"

section \<open>Madgwick filter with degeneracy guards (madgwick\_filter.h and its implementation)\<close>

record Quaternion =
  q0 :: float
  q1 :: float
  q2 :: float
  q3 :: float

record MadgwickFilter =
  q :: Quaternion
  beta :: float
  sample_freq :: float
  inv_sample_freq :: float

text \<open>\<^verbatim>\<open>static float inv_sqrt(float x)\<close>\<close>

definition inv_sqrt :: "float \<Rightarrow> float" where
  "inv_sqrt x = (if x \<le> 1 / 10 ^ 20 \<or> \<not> isfinite x then 0 else 1 / sqrtf x)"

definition reset_quaternion :: "MadgwickFilter \<Rightarrow> MadgwickFilter" where
  "reset_quaternion flt = flt\<lparr>q := \<lparr>q0 = 1, q1 = 0, q2 = 0, q3 = 0\<rparr>\<rparr>"

definition madgwick_init :: "float \<Rightarrow> float \<Rightarrow> MadgwickFilter" where
  "madgwick_init freq gain =
     \<lparr>q = \<lparr>q0 = 1, q1 = 0, q2 = 0, q3 = 0\<rparr>,
      beta = gain, sample_freq = freq, inv_sample_freq = 1 / freq\<rparr>"

text \<open>The four rates \<^verbatim>\<open>qDot1 .. qDot4\<close> travel together.\<close>

type_synonym qdot = "float \<times> float \<times> float \<times> float"

text \<open>Rate of change of quaternion from gyroscope (the first block of both updates).\<close>

definition gyro_rate :: "MadgwickFilter \<Rightarrow> float \<Rightarrow> float \<Rightarrow> float \<Rightarrow> qdot" where
  "gyro_rate flt gx gy gz =
     (0.5 * (- q1 (q flt) * gx - q2 (q flt) * gy - q3 (q flt) * gz),
      0.5 * (q0 (q flt) * gx + q2 (q flt) * gz - q3 (q flt) * gy),
      0.5 * (q0 (q flt) * gy - q1 (q flt) * gz + q3 (q flt) * gx),
      0.5 * (q0 (q flt) * gz + q1 (q flt) * gy - q2 (q flt) * gx))"

text \<open>
  Normalize step magnitude and apply feedback step (the last block inside the
  accelerometer branch of both updates).
\<close>

definition apply_feedback :: "MadgwickFilter \<Rightarrow> qdot \<Rightarrow> float \<Rightarrow> float \<Rightarrow> float \<Rightarrow> float \<Rightarrow> qdot" where
  "apply_feedback flt qDot s0 s1 s2 s3 =
     (case qDot of (qDot1, qDot2, qDot3, qDot4) \<Rightarrow>
        let step_sq = s0 * s0 + s1 * s1 + s2 * s2 + s3 * s3 in
        if step_sq > 1 / 10 ^ 12 then
          let recipNorm = inv_sqrt step_sq;
              s0 = s0 * recipNorm;
              s1 = s1 * recipNorm;
              s2 = s2 * recipNorm;
              s3 = s3 * recipNorm
          in (qDot1 - beta flt * s0, qDot2 - beta flt * s1,
              qDot3 - beta flt * s2, qDot4 - beta flt * s3)
        else (qDot1, qDot2, qDot3, qDot4))"

text \<open>
  The squared norm \<^verbatim>\<open>q_sq\<close> that the code computes after adding the rates to the
  quaternion, and the code from the label \<^verbatim>\<open>integrate_6dof\<close> (and, with the same text,
  \<^verbatim>\<open>integrate_9dof\<close>) to the end of the function.
\<close>

definition integrated :: "MadgwickFilter \<Rightarrow> qdot \<Rightarrow> Quaternion" where
  "integrated flt qDot =
     (case qDot of (qDot1, qDot2, qDot3, qDot4) \<Rightarrow>
        \<lparr>q0 = q0 (q flt) + qDot1 * inv_sample_freq flt,
         q1 = q1 (q flt) + qDot2 * inv_sample_freq flt,
         q2 = q2 (q flt) + qDot3 * inv_sample_freq flt,
         q3 = q3 (q flt) + qDot4 * inv_sample_freq flt\<rparr>)"

definition quat_sq :: "Quaternion \<Rightarrow> float" where
  "quat_sq p = q0 p * q0 p + q1 p * q1 p + q2 p * q2 p + q3 p * q3 p"

definition integrate :: "MadgwickFilter \<Rightarrow> qdot \<Rightarrow> MadgwickFilter" where
  "integrate flt qDot =
     (let flt = flt\<lparr>q := integrated flt qDot\<rparr>;
          q_sq = quat_sq (q flt);
          recipNorm = inv_sqrt q_sq
      in if recipNorm = 0 then reset_quaternion flt
         else flt\<lparr>q := \<lparr>q0 = q0 (q flt) * recipNorm,
                            q1 = q1 (q flt) * recipNorm,
                            q2 = q2 (q flt) * recipNorm,
                            q3 = q3 (q flt) * recipNorm\<rparr>\<rparr>)"

text \<open>
  \<^verbatim>\<open>madgwick_update_imu\<close>: the gradient of the 6-DOF objective, from the auxiliary
  variables to \<^verbatim>\<open>s3\<close>, on the normalized accelerometer vector.
\<close>

definition imu_gradient ::
  "MadgwickFilter \<Rightarrow> float \<Rightarrow> float \<Rightarrow> float \<Rightarrow> float \<times> float \<times> float \<times> float" where
  "imu_gradient flt ax ay az =
     (let v_2q0 = 2 * q0 (q flt);
          v_2q1 = 2 * q1 (q flt);
          v_2q2 = 2 * q2 (q flt);
          v_2q3 = 2 * q3 (q flt);
          v_4q0 = 4 * q0 (q flt);
          v_4q1 = 4 * q1 (q flt);
          v_4q2 = 4 * q2 (q flt);
          v_8q1 = 8 * q1 (q flt);
          v_8q2 = 8 * q2 (q flt);
          q0q0 = q0 (q flt) * q0 (q flt);
          q1q1 = q1 (q flt) * q1 (q flt);
          q2q2 = q2 (q flt) * q2 (q flt);
          q3q3 = q3 (q flt) * q3 (q flt);
          s0 = v_4q0 * q2q2 + v_2q2 * ax + v_4q0 * q1q1 - v_2q1 * ay;
          s1 = v_4q1 * q3q3 - v_2q3 * ax + 4 * q0q0 * q1 (q flt) - v_2q0 * ay - v_4q1
               + v_8q1 * q1q1 + v_8q1 * q2q2 + v_4q1 * az;
          s2 = 4 * q0q0 * q2 (q flt) + v_2q0 * ax + v_4q2 * q3q3 - v_2q3 * ay - v_4q2
               + v_8q2 * q1q1 + v_8q2 * q2q2 + v_4q2 * az;
          s3 = 4 * q1q1 * q3 (q flt) - v_2q1 * ax + 4 * q2q2 * q3 (q flt) - v_2q2 * ay
      in (s0, s1, s2, s3))"

text \<open>The rates with which \<^verbatim>\<open>madgwick_update_imu\<close> reaches \<^verbatim>\<open>integrate_6dof\<close>.\<close>

definition update_imu_rate ::
  "MadgwickFilter \<Rightarrow> float \<Rightarrow> float \<Rightarrow> float \<Rightarrow> float \<Rightarrow> float \<Rightarrow> float \<Rightarrow> qdot" where
  "update_imu_rate flt gx gy gz ax ay az =
     (let qDot = gyro_rate flt gx gy gz;
          acc_sq = ax * ax + ay * ay + az * az
      in if acc_sq > 1 / 10 ^ 8 \<and> isfinite acc_sq then
           let recipNorm = inv_sqrt acc_sq in
           if recipNorm = 0 then qDot
           else
             let ax = ax * recipNorm;
                 ay = ay * recipNorm;
                 az = az * recipNorm
             in (case imu_gradient flt ax ay az of (s0, s1, s2, s3) \<Rightarrow>
                   apply_feedback flt qDot s0 s1 s2 s3)
         else qDot)"

definition madgwick_update_imu ::
  "MadgwickFilter \<Rightarrow> float \<Rightarrow> float \<Rightarrow> float \<Rightarrow> float \<Rightarrow> float \<Rightarrow> float \<Rightarrow> MadgwickFilter" where
  "madgwick_update_imu flt gx gy gz ax ay az =
     integrate flt (update_imu_rate flt gx gy gz ax ay az)"

text \<open>
  \<^verbatim>\<open>madgwick_update\<close>: the gradient of the 9-DOF objective, from the auxiliary
  variables to \<^verbatim>\<open>s3\<close>, on the normalized accelerometer and magnetometer vectors.
\<close>

definition marg_gradient ::
  "MadgwickFilter \<Rightarrow> float \<Rightarrow> float \<Rightarrow> float \<Rightarrow> float \<Rightarrow> float \<Rightarrow> float \<Rightarrow>
   float \<times> float \<times> float \<times> float" where
  "marg_gradient flt ax ay az mx my mz =
     (let v_2q0mx = 2 * q0 (q flt) * mx;
          v_2q0my = 2 * q0 (q flt) * my;
          v_2q0mz = 2 * q0 (q flt) * mz;
          v_2q1mx = 2 * q1 (q flt) * mx;
          v_2q0 = 2 * q0 (q flt);
          v_2q1 = 2 * q1 (q flt);
          v_2q2 = 2 * q2 (q flt);
          v_2q3 = 2 * q3 (q flt);
          v_2q0q2 = 2 * q0 (q flt) * q2 (q flt);
          v_2q2q3 = 2 * q2 (q flt) * q3 (q flt);
          q0q0 = q0 (q flt) * q0 (q flt);
          q0q1 = q0 (q flt) * q1 (q flt);
          q0q2 = q0 (q flt) * q2 (q flt);
          q0q3 = q0 (q flt) * q3 (q flt);
          q1q1 = q1 (q flt) * q1 (q flt);
          q1q2 = q1 (q flt) * q2 (q flt);
          q1q3 = q1 (q flt) * q3 (q flt);
          q2q2 = q2 (q flt) * q2 (q flt);
          q2q3 = q2 (q flt) * q3 (q flt);
          q3q3 = q3 (q flt) * q3 (q flt);
          hx = mx * q0q0 - v_2q0my * q3 (q flt) + v_2q0mz * q2 (q flt) +
               mx * q1q1 + v_2q1 * my * q2 (q flt) + v_2q1 * mz * q3 (q flt) -
               mx * q2q2 - mx * q3q3;
          hy = v_2q0mx * q3 (q flt) + my * q0q0 - v_2q0mz * q1 (q flt) +
               v_2q1mx * q2 (q flt) - my * q1q1 + my * q2q2 +
               v_2q2 * mz * q3 (q flt) - my * q3q3;
          v_2bx = sqrtf (hx * hx + hy * hy);
          v_2bz = - v_2q0mx * q2 (q flt) + v_2q0my * q1 (q flt) + mz * q0q0 +
                  v_2q1mx * q3 (q flt) - mz * q1q1 + v_2q2 * my * q3 (q flt) -
                  mz * q2q2 + mz * q3q3;
          v_4bx = 2 * v_2bx;
          v_4bz = 2 * v_2bz;
          s0 = - v_2q2 * (2 * q1q3 - v_2q0q2 - ax) +
               v_2q1 * (2 * q0q1 + v_2q2q3 - ay) -
               v_2bz * q2 (q flt) * (v_2bx * (0.5 - q2q2 - q3q3) + v_2bz * (q1q3 - q0q2) - mx) +
               (- v_2bx * q3 (q flt) + v_2bz * q1 (q flt)) * (v_2bx * (q1q2 - q0q3) + v_2bz * (q0q1 + q2q3) - my) +
               v_2bx * q2 (q flt) * (v_2bx * (q0q2 + q1q3) + v_2bz * (0.5 - q1q1 - q2q2) - mz);
          s1 = v_2q3 * (2 * q1q3 - v_2q0q2 - ax) +
               v_2q0 * (2 * q0q1 + v_2q2q3 - ay) -
               4 * q1 (q flt) * (1 - 2 * q1q1 - 2 * q2q2 - az) +
               v_2bz * q3 (q flt) * (v_2bx * (0.5 - q2q2 - q3q3) + v_2bz * (q1q3 - q0q2) - mx) +
               (v_2bx * q2 (q flt) + v_2bz * q0 (q flt)) * (v_2bx * (q1q2 - q0q3) + v_2bz * (q0q1 + q2q3) - my) +
               (v_2bx * q3 (q flt) - v_4bz * q1 (q flt)) * (v_2bx * (q0q2 + q1q3) + v_2bz * (0.5 - q1q1 - q2q2) - mz);
          s2 = - v_2q0 * (2 * q1q3 - v_2q0q2 - ax) +
               v_2q3 * (2 * q0q1 + v_2q2q3 - ay) -
               4 * q2 (q flt) * (1 - 2 * q1q1 - 2 * q2q2 - az) +
               (- v_4bx * q2 (q flt) - v_2bz * q0 (q flt)) * (v_2bx * (0.5 - q2q2 - q3q3) + v_2bz * (q1q3 - q0q2) - mx) +
               (v_2bx * q1 (q flt) + v_2bz * q3 (q flt)) * (v_2bx * (q1q2 - q0q3) + v_2bz * (q0q1 + q2q3) - my) +
               (v_2bx * q0 (q flt) - v_4bz * q2 (q flt)) * (v_2bx * (q0q2 + q1q3) + v_2bz * (0.5 - q1q1 - q2q2) - mz);
          s3 = v_2q1 * (2 * q1q3 - v_2q0q2 - ax) +
               v_2q2 * (2 * q0q1 + v_2q2q3 - ay) +
               (- v_4bx * q3 (q flt) + v_2bz * q1 (q flt)) * (v_2bx * (0.5 - q2q2 - q3q3) + v_2bz * (q1q3 - q0q2) - mx) +
               (- v_2bx * q0 (q flt) + v_2bz * q2 (q flt)) * (v_2bx * (q1q2 - q0q3) + v_2bz * (q0q1 + q2q3) - my) +
               v_2bx * q1 (q flt) * (v_2bx * (q0q2 + q1q3) + v_2bz * (0.5 - q1q1 - q2q2) - mz)
      in (s0, s1, s2, s3))"

text \<open>
  The rates with which \<^verbatim>\<open>madgwick_update\<close> reaches \<^verbatim>\<open>integrate_9dof\<close>, for a
  magnetometer vector that is not \<open>(0, 0, 0)\<close>.
\<close>

definition update_marg_rate ::
  "MadgwickFilter \<Rightarrow> float \<Rightarrow> float \<Rightarrow> float \<Rightarrow> float \<Rightarrow> float \<Rightarrow> float \<Rightarrow>
   float \<Rightarrow> float \<Rightarrow> float \<Rightarrow> qdot" where
  "update_marg_rate flt gx gy gz ax ay az mx my mz =
     (let qDot = gyro_rate flt gx gy gz;
          acc_sq = ax * ax + ay * ay + az * az
      in if acc_sq > 1 / 10 ^ 8 \<and> isfinite acc_sq then
           let recipNorm = inv_sqrt acc_sq in
           if recipNorm = 0 then qDot
           else
             let ax = ax * recipNorm;
                 ay = ay * recipNorm;
                 az = az * recipNorm;
                 mag_sq = mx * mx + my * my + mz * mz;
                 recipNorm = inv_sqrt mag_sq
             in if recipNorm = 0 then qDot
                else
                  let mx = mx * recipNorm;
                      my = my * recipNorm;
                      mz = mz * recipNorm
                  in (case marg_gradient flt ax ay az mx my mz of (s0, s1, s2, s3) \<Rightarrow>
                        apply_feedback flt qDot s0 s1 s2 s3)
         else qDot)"

definition madgwick_update ::
  "MadgwickFilter \<Rightarrow> float \<Rightarrow> float \<Rightarrow> float \<Rightarrow> float \<Rightarrow> float \<Rightarrow> float \<Rightarrow>
   float \<Rightarrow> float \<Rightarrow> float \<Rightarrow> MadgwickFilter" where
  "madgwick_update flt gx gy gz ax ay az mx my mz =
     (if mx = 0 \<and> my = 0 \<and> mz = 0 then madgwick_update_imu flt gx gy gz ax ay az
      else integrate flt (update_marg_rate flt gx gy gz ax ay az mx my mz))"

text \<open>\<^verbatim>\<open>quaternion_to_euler\<close> (radians) and the helpers that return degrees.\<close>

definition quaternion_to_euler :: "Quaternion \<Rightarrow> float \<times> float \<times> float" where
  "quaternion_to_euler p =
     (let sinr_cosp = 2 * (q0 p * q1 p + q2 p * q3 p);
          cosr_cosp = 1 - 2 * (q1 p * q1 p + q2 p * q2 p);
          roll = atan2f sinr_cosp cosr_cosp;
          sinp = 2 * (q0 p * q2 p - q3 p * q1 p);
          pitch = (if fabsf sinp \<ge> 1 then copysignf (pi / 2) sinp else asinf sinp);
          siny_cosp = 2 * (q0 p * q3 p + q1 p * q2 p);
          cosy_cosp = 1 - 2 * (q2 p * q2 p + q3 p * q3 p);
          yaw = atan2f siny_cosp cosy_cosp
      in (roll, pitch, yaw))"

definition madgwick_get_roll_deg :: "MadgwickFilter \<Rightarrow> float" where
  "madgwick_get_roll_deg flt =
     (case quaternion_to_euler (q flt) of (roll, pitch, yaw) \<Rightarrow> roll * 180 / pi)"

definition madgwick_get_pitch_deg :: "MadgwickFilter \<Rightarrow> float" where
  "madgwick_get_pitch_deg flt =
     (case quaternion_to_euler (q flt) of (roll, pitch, yaw) \<Rightarrow> pitch * 180 / pi)"

definition madgwick_get_yaw_deg :: "MadgwickFilter \<Rightarrow> float" where
  "madgwick_get_yaw_deg flt =
     (case quaternion_to_euler (q flt) of (roll, pitch, yaw) \<Rightarrow> yaw * 180 / pi)"

section \<open>The loop of \<^verbatim>\<open>action_test_gyro\<close>\<close>

text \<open>
  \<^verbatim>\<open>absolute_time_diff_us\<close> of the Pico SDK: the signed difference of two 64-bit
  microsecond timestamps.
\<close>

definition absolute_time_diff_us :: "64 word \<Rightarrow> 64 word \<Rightarrow> int" where
  "absolute_time_diff_us t_from t_to = sint (t_to - t_from)"

text \<open>
  The variables of \<^verbatim>\<open>action_test_gyro\<close> that live across iterations of its AHRS loop:
  the filter, the gyroscope and accelerometer biases, \<^verbatim>\<open>last_update\<close>, and the attitude
  (roll, pitch) of the frame that was last drawn and flushed to the LCD, if any.
\<close>

record ahrs =
  ahrs_filter :: MadgwickFilter
  gyro_bias_x :: float
  gyro_bias_y :: float
  gyro_bias_z :: float
  accel_bias_x :: float
  accel_bias_y :: float
  accel_bias_z :: float
  last_update :: "64 word"
  lcd_attitude :: "(float \<times> float) option"

text \<open>
  The interval \<^verbatim>\<open>dt\<close> of an iteration, from \<^verbatim>\<open>absolute_time_diff_us\<close> to the
  substitution of 0.01.
\<close>

definition tick_dt :: "64 word \<Rightarrow> 64 word \<Rightarrow> float" where
  "tick_dt prev now =
     (let dt_us = absolute_time_diff_us prev now;
          dt = real_of_int dt_us / 1000000
      in if dt \<le> 0 \<or> dt > 0.2 then 0.01 else dt)"

text \<open>The local \<^verbatim>\<open>stationary\<close> and the local \<^verbatim>\<open>bias_alpha\<close> with its cap.\<close>

definition stationary_test ::
  "float \<Rightarrow> float \<Rightarrow> float \<Rightarrow> float \<Rightarrow> float \<Rightarrow> float \<Rightarrow> bool" where
  "stationary_test ax ay az gx_dps gy_dps gz_dps =
     (let acc_norm = sqrtf (ax * ax + ay * ay + az * az)
      in isfinite acc_norm \<and>
         fabsf (acc_norm - 1) < 0.08 \<and>
         fabsf gx_dps < 1.2 \<and>
         fabsf gy_dps < 1.2 \<and>
         fabsf gz_dps < 1.2)"

definition bias_alpha_of :: "float \<Rightarrow> float" where
  "bias_alpha_of dt = (let bias_alpha = dt * 0.08 in if bias_alpha > 0.02 then 0.02 else bias_alpha)"

text \<open>
  One iteration of the AHRS loop. The inputs are what the iteration obtains from
  outside: whether KEY2 was just pressed, what \<^verbatim>\<open>icm20948_read_accel\<close> and
  \<^verbatim>\<open>icm20948_read_gyro\<close> delivered (\<open>None\<close> when the call returned \<^verbatim>\<open>false\<close>; the gyroscope
  is not read after a failed accelerometer read), and the time \<open>now\<close>. The result says
  whether the loop goes on, with the variables after the iteration. An iteration that
  ends in \<^verbatim>\<open>continue\<close> draws nothing; drawing is kept as the attitude handed to it.
\<close>

definition action_test_gyro_tick ::
  "bool \<Rightarrow> SensorData option \<Rightarrow> SensorData option \<Rightarrow> 64 word \<Rightarrow> ahrs \<Rightarrow> bool \<times> ahrs" where
  "action_test_gyro_tick key2 accel_read gyro_read now s =
     (if key2 then (False, s)
      else case accel_read of None \<Rightarrow> (True, s) | Some accel \<Rightarrow>
      (case gyro_read of None \<Rightarrow> (True, s) | Some gyro \<Rightarrow>
        let dt = tick_dt (last_update s) now;
            s = s\<lparr>last_update := now\<rparr>;
            ax = icm20948_accel_to_g (sd_x accel) ACCEL_RANGE_4G - accel_bias_x s;
            ay = icm20948_accel_to_g (sd_y accel) ACCEL_RANGE_4G - accel_bias_y s;
            az = icm20948_accel_to_g (sd_z accel) ACCEL_RANGE_4G - accel_bias_z s;
            gx_raw_dps = icm20948_gyro_to_dps (sd_x gyro) GYRO_RANGE_500DPS;
            gy_raw_dps = icm20948_gyro_to_dps (sd_y gyro) GYRO_RANGE_500DPS;
            gz_raw_dps = icm20948_gyro_to_dps (sd_z gyro) GYRO_RANGE_500DPS;
            gx_dps = gx_raw_dps - gyro_bias_x s;
            gy_dps = gy_raw_dps - gyro_bias_y s;
            gz_dps = gz_raw_dps - gyro_bias_z s
        in if \<not> isfinite gx_dps \<or> \<not> isfinite gy_dps \<or> \<not> isfinite gz_dps then (True, s)
           else if fabsf gx_dps > 2000 \<or> fabsf gy_dps > 2000 \<or> fabsf gz_dps > 2000 then (True, s)
           else
             let stationary = stationary_test ax ay az gx_dps gy_dps gz_dps;
                 (s, gx_dps, gy_dps, gz_dps) =
                   (if stationary then
                      let bias_alpha = bias_alpha_of dt;
                          s = s\<lparr>gyro_bias_x := (1 - bias_alpha) * gyro_bias_x s + bias_alpha * gx_raw_dps\<rparr>;
                          s = s\<lparr>gyro_bias_y := (1 - bias_alpha) * gyro_bias_y s + bias_alpha * gy_raw_dps\<rparr>;
                          s = s\<lparr>gyro_bias_z := (1 - bias_alpha) * gyro_bias_z s + bias_alpha * gz_raw_dps\<rparr>
                      in (s, gx_raw_dps - gyro_bias_x s, gy_raw_dps - gyro_bias_y s,
                          gz_raw_dps - gyro_bias_z s)
                    else (s, gx_dps, gy_dps, gz_dps));
                 gz_dps = (if fabsf gz_dps < 0.15 then 0 else gz_dps);
                 gx = gx_dps * pi / 180;
                 gy = gy_dps * pi / 180;
                 gz = gz_dps * pi / 180;
                 flt = (ahrs_filter s)\<lparr>sample_freq := 1 / dt, inv_sample_freq := dt\<rparr>;
                 flt = madgwick_update_imu flt gx gy gz ax ay az;
                 s = s\<lparr>ahrs_filter := flt\<rparr>;
                 roll = - madgwick_get_roll_deg flt;
                 pitch = madgwick_get_pitch_deg flt
             in if \<not> isfinite roll \<or> \<not> isfinite pitch
                then (True, s\<lparr>ahrs_filter := madgwick_init 100 0.10\<rparr>)
                else
                  let pitch = (if pitch > 60 then 60 else pitch);
                      pitch = (if pitch < - 60 then - 60 else pitch)
                  in (True, s\<lparr>lcd_attitude := Some (roll, pitch)\<rparr>)))"

section \<open>Madgwick filter of BasicGyro (madgwick.c)\<close>

text \<open>
  The filter that attitude\_indicator.c links against. Its structure and functions carry
  the names of the guarded filter above; here they are primed. Gyroscope rates arrive
  in degrees per second, and \<^verbatim>\<open>inv_sqrt\<close> divides without a guard: where C divides by
  zero, the quotient written here is the one of HOL (\<open>1 / 0 = 0\<close>) and not an infinity,
  so nothing below is concluded from the value of this filter on such an input.
\<close>

record MadgwickFilter' =
  q0' :: float
  q1' :: float
  q2' :: float
  q3' :: float
  beta' :: float
  sample_freq' :: float
  inv_sample_freq' :: float

definition DEG_TO_RAD :: float where
  "DEG_TO_RAD = pi / 180"

definition RAD_TO_DEG :: float where
  "RAD_TO_DEG = 180 / pi"

definition inv_sqrt' :: "float \<Rightarrow> float" where
  "inv_sqrt' v = 1 / sqrtf v"

definition madgwick_init' :: "float \<Rightarrow> float \<Rightarrow> MadgwickFilter'" where
  "madgwick_init' freq gain =
     \<lparr>q0' = 1, q1' = 0, q2' = 0, q3' = 0,
      beta' = gain, sample_freq' = freq, inv_sample_freq' = 1 / freq\<rparr>"

definition gyro_rate' :: "MadgwickFilter' \<Rightarrow> float \<Rightarrow> float \<Rightarrow> float \<Rightarrow> qdot" where
  "gyro_rate' flt gx gy gz =
     (let gx = gx * DEG_TO_RAD;
          gy = gy * DEG_TO_RAD;
          gz = gz * DEG_TO_RAD
      in (0.5 * (- q1' flt * gx - q2' flt * gy - q3' flt * gz),
          0.5 * (q0' flt * gx + q2' flt * gz - q3' flt * gy),
          0.5 * (q0' flt * gy - q1' flt * gz + q3' flt * gx),
          0.5 * (q0' flt * gz + q1' flt * gy - q2' flt * gx)))"

definition apply_feedback' ::
  "MadgwickFilter' \<Rightarrow> qdot \<Rightarrow> float \<Rightarrow> float \<Rightarrow> float \<Rightarrow> float \<Rightarrow> qdot" where
  "apply_feedback' flt qDot s0 s1 s2 s3 =
     (case qDot of (qDot1, qDot2, qDot3, qDot4) \<Rightarrow>
        let recipNorm = inv_sqrt' (s0 * s0 + s1 * s1 + s2 * s2 + s3 * s3);
            s0 = s0 * recipNorm;
            s1 = s1 * recipNorm;
            s2 = s2 * recipNorm;
            s3 = s3 * recipNorm
        in (qDot1 - beta' flt * s0, qDot2 - beta' flt * s1,
            qDot3 - beta' flt * s2, qDot4 - beta' flt * s3))"

definition integrate' :: "MadgwickFilter' \<Rightarrow> qdot \<Rightarrow> MadgwickFilter'" where
  "integrate' flt qDot =
     (case qDot of (qDot1, qDot2, qDot3, qDot4) \<Rightarrow>
        let flt = flt\<lparr>q0' := q0' flt + qDot1 * inv_sample_freq' flt,
                      q1' := q1' flt + qDot2 * inv_sample_freq' flt,
                      q2' := q2' flt + qDot3 * inv_sample_freq' flt,
                      q3' := q3' flt + qDot4 * inv_sample_freq' flt\<rparr>;
            recipNorm = inv_sqrt' (q0' flt * q0' flt + q1' flt * q1' flt +
                                   q2' flt * q2' flt + q3' flt * q3' flt)
        in flt\<lparr>q0' := q0' flt * recipNorm,
                q1' := q1' flt * recipNorm,
                q2' := q2' flt * recipNorm,
                q3' := q3' flt * recipNorm\<rparr>)"

definition imu_gradient' ::
  "MadgwickFilter' \<Rightarrow> float \<Rightarrow> float \<Rightarrow> float \<Rightarrow> float \<times> float \<times> float \<times> float" where
  "imu_gradient' flt ax ay az =
     (let v_2q0 = 2 * q0' flt;
          v_2q1 = 2 * q1' flt;
          v_2q2 = 2 * q2' flt;
          v_2q3 = 2 * q3' flt;
          v_4q0 = 4 * q0' flt;
          v_4q1 = 4 * q1' flt;
          v_4q2 = 4 * q2' flt;
          v_8q1 = 8 * q1' flt;
          v_8q2 = 8 * q2' flt;
          q0q0 = q0' flt * q0' flt;
          q1q1 = q1' flt * q1' flt;
          q2q2 = q2' flt * q2' flt;
          q3q3 = q3' flt * q3' flt;
          s0 = v_4q0 * q2q2 + v_2q2 * ax + v_4q0 * q1q1 - v_2q1 * ay;
          s1 = v_4q1 * q3q3 - v_2q3 * ax + 4 * q0q0 * q1' flt - v_2q0 * ay - v_4q1
               + v_8q1 * q1q1 + v_8q1 * q2q2 + v_4q1 * az;
          s2 = 4 * q0q0 * q2' flt + v_2q0 * ax + v_4q2 * q3q3 - v_2q3 * ay - v_4q2
               + v_8q2 * q1q1 + v_8q2 * q2q2 + v_4q2 * az;
          s3 = 4 * q1q1 * q3' flt - v_2q1 * ax + 4 * q2q2 * q3' flt - v_2q2 * ay
      in (s0, s1, s2, s3))"

definition madgwick_update_imu' ::
  "MadgwickFilter' \<Rightarrow> float \<Rightarrow> float \<Rightarrow> float \<Rightarrow> float \<Rightarrow> float \<Rightarrow> float \<Rightarrow> MadgwickFilter'" where
  "madgwick_update_imu' flt gx gy gz ax ay az =
     (let qDot = gyro_rate' flt gx gy gz;
          qDot =
            (if \<not> (ax = 0 \<and> ay = 0 \<and> az = 0) then
               let recipNorm = inv_sqrt' (ax * ax + ay * ay + az * az);
                   ax = ax * recipNorm;
                   ay = ay * recipNorm;
                   az = az * recipNorm
               in (case imu_gradient' flt ax ay az of (s0, s1, s2, s3) \<Rightarrow>
                     apply_feedback' flt qDot s0 s1 s2 s3)
             else qDot)
      in integrate' flt qDot)"

definition marg_gradient' ::
  "MadgwickFilter' \<Rightarrow> float \<Rightarrow> float \<Rightarrow> float \<Rightarrow> float \<Rightarrow> float \<Rightarrow> float \<Rightarrow>
   float \<times> float \<times> float \<times> float" where
  "marg_gradient' flt ax ay az mx my mz =
     (let v_2q0mx = 2 * q0' flt * mx;
          v_2q0my = 2 * q0' flt * my;
          v_2q0mz = 2 * q0' flt * mz;
          v_2q1mx = 2 * q1' flt * mx;
          v_2q0 = 2 * q0' flt;
          v_2q1 = 2 * q1' flt;
          v_2q2 = 2 * q2' flt;
          v_2q3 = 2 * q3' flt;
          v_2q0q2 = 2 * q0' flt * q2' flt;
          v_2q2q3 = 2 * q2' flt * q3' flt;
          q0q0 = q0' flt * q0' flt;
          q0q1 = q0' flt * q1' flt;
          q0q2 = q0' flt * q2' flt;
          q0q3 = q0' flt * q3' flt;
          q1q1 = q1' flt * q1' flt;
          q1q2 = q1' flt * q2' flt;
          q1q3 = q1' flt * q3' flt;
          q2q2 = q2' flt * q2' flt;
          q2q3 = q2' flt * q3' flt;
          q3q3 = q3' flt * q3' flt;
          hx = mx * q0q0 - v_2q0my * q3' flt + v_2q0mz * q2' flt +
               mx * q1q1 + v_2q1 * my * q2' flt + v_2q1 * mz * q3' flt -
               mx * q2q2 - mx * q3q3;
          hy = v_2q0mx * q3' flt + my * q0q0 - v_2q0mz * q1' flt +
               v_2q1mx * q2' flt - my * q1q1 + my * q2q2 +
               v_2q2 * mz * q3' flt - my * q3q3;
          v_2bx = sqrtf (hx * hx + hy * hy);
          v_2bz = - v_2q0mx * q2' flt + v_2q0my * q1' flt + mz * q0q0 +
                  v_2q1mx * q3' flt - mz * q1q1 + v_2q2 * my * q3' flt -
                  mz * q2q2 + mz * q3q3;
          v_4bx = 2 * v_2bx;
          v_4bz = 2 * v_2bz;
          s0 = - v_2q2 * (2 * q1q3 - v_2q0q2 - ax) +
               v_2q1 * (2 * q0q1 + v_2q2q3 - ay) -
               v_2bz * q2' flt * (v_2bx * (0.5 - q2q2 - q3q3) + v_2bz * (q1q3 - q0q2) - mx) +
               (- v_2bx * q3' flt + v_2bz * q1' flt) * (v_2bx * (q1q2 - q0q3) + v_2bz * (q0q1 + q2q3) - my) +
               v_2bx * q2' flt * (v_2bx * (q0q2 + q1q3) + v_2bz * (0.5 - q1q1 - q2q2) - mz);
          s1 = v_2q3 * (2 * q1q3 - v_2q0q2 - ax) +
               v_2q0 * (2 * q0q1 + v_2q2q3 - ay) -
               4 * q1' flt * (1 - 2 * q1q1 - 2 * q2q2 - az) +
               v_2bz * q3' flt * (v_2bx * (0.5 - q2q2 - q3q3) + v_2bz * (q1q3 - q0q2) - mx) +
               (v_2bx * q2' flt + v_2bz * q0' flt) * (v_2bx * (q1q2 - q0q3) + v_2bz * (q0q1 + q2q3) - my) +
               (v_2bx * q3' flt - v_4bz * q1' flt) * (v_2bx * (q0q2 + q1q3) + v_2bz * (0.5 - q1q1 - q2q2) - mz);
          s2 = - v_2q0 * (2 * q1q3 - v_2q0q2 - ax) +
               v_2q3 * (2 * q0q1 + v_2q2q3 - ay) -
               4 * q2' flt * (1 - 2 * q1q1 - 2 * q2q2 - az) +
               (- v_4bx * q2' flt - v_2bz * q0' flt) * (v_2bx * (0.5 - q2q2 - q3q3) + v_2bz * (q1q3 - q0q2) - mx) +
               (v_2bx * q1' flt + v_2bz * q3' flt) * (v_2bx * (q1q2 - q0q3) + v_2bz * (q0q1 + q2q3) - my) +
               (v_2bx * q0' flt - v_4bz * q2' flt) * (v_2bx * (q0q2 + q1q3) + v_2bz * (0.5 - q1q1 - q2q2) - mz);
          s3 = v_2q1 * (2 * q1q3 - v_2q0q2 - ax) +
               v_2q2 * (2 * q0q1 + v_2q2q3 - ay) +
               (- v_4bx * q3' flt + v_2bz * q1' flt) * (v_2bx * (0.5 - q2q2 - q3q3) + v_2bz * (q1q3 - q0q2) - mx) +
               (- v_2bx * q0' flt + v_2bz * q2' flt) * (v_2bx * (q1q2 - q0q3) + v_2bz * (q0q1 + q2q3) - my) +
               v_2bx * q1' flt * (v_2bx * (q0q2 + q1q3) + v_2bz * (0.5 - q1q1 - q2q2) - mz)
      in (s0, s1, s2, s3))"

definition madgwick_update_marg ::
  "MadgwickFilter' \<Rightarrow> float \<Rightarrow> float \<Rightarrow> float \<Rightarrow> float \<Rightarrow> float \<Rightarrow> float \<Rightarrow>
   float \<Rightarrow> float \<Rightarrow> float \<Rightarrow> MadgwickFilter'" where
  "madgwick_update_marg flt gx gy gz ax ay az mx my mz =
     (let qDot = gyro_rate' flt gx gy gz;
          qDot =
            (if \<not> (ax = 0 \<and> ay = 0 \<and> az = 0) then
               let recipNorm = inv_sqrt' (ax * ax + ay * ay + az * az);
                   ax = ax * recipNorm;
                   ay = ay * recipNorm;
                   az = az * recipNorm;
                   recipNorm = inv_sqrt' (mx * mx + my * my + mz * mz);
                   mx = mx * recipNorm;
                   my = my * recipNorm;
                   mz = mz * recipNorm
               in (case marg_gradient' flt ax ay az mx my mz of (s0, s1, s2, s3) \<Rightarrow>
                     apply_feedback' flt qDot s0 s1 s2 s3)
             else qDot)
      in integrate' flt qDot)"

definition madgwick_get_euler :: "MadgwickFilter' \<Rightarrow> float \<times> float \<times> float" where
  "madgwick_get_euler flt =
     (let sinr_cosp = 2 * (q0' flt * q1' flt + q2' flt * q3' flt);
          cosr_cosp = 1 - 2 * (q1' flt * q1' flt + q2' flt * q2' flt);
          roll = atan2f sinr_cosp cosr_cosp * RAD_TO_DEG;
          sinp = 2 * (q0' flt * q2' flt - q3' flt * q1' flt);
          pitch = (if fabsf sinp \<ge> 1 then copysignf 90 sinp else asinf sinp * RAD_TO_DEG);
          siny_cosp = 2 * (q0' flt * q3' flt + q1' flt * q2' flt);
          cosy_cosp = 1 - 2 * (q2' flt * q2' flt + q3' flt * q3' flt);
          yaw = - atan2f siny_cosp cosy_cosp * RAD_TO_DEG
      in (roll, pitch, yaw))"

section \<open>attitude\_indicator.c\<close>

text \<open>
  \<^verbatim>\<open>wrap360\<close> is two \<^verbatim>\<open>while\<close> loops, one after the other. Each is a recursive
  function; on the reals both end, by the two measures that follow.
\<close>

lemma wrap_up_measure: "(deg::real) < 0 \<Longrightarrow> nat \<lceil>- (deg + 360) / 360\<rceil> < nat \<lceil>- deg / 360\<rceil>"
proof -
  assume neg: "deg < 0"
  have "- (deg + 360) / 360 = - deg / 360 - 1"
    by (simp add: field_simps)
  then have eq: "\<lceil>- (deg + 360) / 360\<rceil> = \<lceil>- deg / 360\<rceil> - 1"
    by (simp only: ceiling_diff_one)
  have "0 < - deg / 360"
    using neg by simp
  then have "0 < \<lceil>- deg / 360\<rceil>"
    by (simp add: less_ceiling_iff)
  then show ?thesis
    using eq by linarith
qed

lemma wrap_down_measure: "360 \<le> (deg::real) \<Longrightarrow> nat \<lfloor>(deg - 360) / 360\<rfloor> < nat \<lfloor>deg / 360\<rfloor>"
proof -
  assume big: "360 \<le> deg"
  have "(deg - 360) / 360 = deg / 360 - 1"
    by (simp add: field_simps)
  then have eq: "\<lfloor>(deg - 360) / 360\<rfloor> = \<lfloor>deg / 360\<rfloor> - 1"
    by (simp only: floor_diff_one)
  have "1 \<le> deg / 360"
    using big by simp
  then have "1 \<le> \<lfloor>deg / 360\<rfloor>"
    by (simp add: le_floor_iff)
  then show ?thesis
    using eq by linarith
qed

function wrap_up :: "float \<Rightarrow> float" where
  "wrap_up deg = (if deg < 0 then wrap_up (deg + 360) else deg)"
  by pat_completeness auto
termination
proof (relation "measure (\<lambda>deg. nat \<lceil>- deg / 360\<rceil>)")
  show "wf (measure (\<lambda>deg::float. nat \<lceil>- deg / 360\<rceil>))"
    by (rule wf_measure)
  show "\<And>deg::float. deg < 0 \<Longrightarrow> (deg + 360, deg) \<in> measure (\<lambda>deg. nat \<lceil>- deg / 360\<rceil>)"
    by (simp only: in_measure) (rule wrap_up_measure)
qed

declare wrap_up.simps [simp del]

function wrap_down :: "float \<Rightarrow> float" where
  "wrap_down deg = (if deg \<ge> 360 then wrap_down (deg - 360) else deg)"
  by pat_completeness auto
termination
proof (relation "measure (\<lambda>deg. nat \<lfloor>deg / 360\<rfloor>)")
  show "wf (measure (\<lambda>deg::float. nat \<lfloor>deg / 360\<rfloor>))"
    by (rule wf_measure)
  show "\<And>deg::float. 360 \<le> deg \<Longrightarrow> (deg - 360, deg) \<in> measure (\<lambda>deg. nat \<lfloor>deg / 360\<rfloor>)"
    by (simp only: in_measure) (rule wrap_down_measure)
qed

declare wrap_down.simps [simp del]

definition wrap360 :: "float \<Rightarrow> float" where
  "wrap360 deg = wrap_down (wrap_up deg)"

definition clampf :: "float \<Rightarrow> float \<Rightarrow> float \<Rightarrow> float" where
  "clampf v lo hi = (if v < lo then lo else if v > hi then hi else v)"

definition LOOP_HZ :: "32 word" where "LOOP_HZ = 100"
definition LOOP_US :: "32 word" where "LOOP_US = 1000000 div LOOP_HZ"
definition UI_SMOOTH :: float where "UI_SMOOTH = 0.12"
definition MAX_DISPLAY_DEG :: float where "MAX_DISPLAY_DEG = 80"

text \<open>
  The variables of attitude\_indicator.c that live across iterations of the loop of
  \<^verbatim>\<open>attitude_indicator_run\<close>: the file's statics, the scheduler's timestamps, the
  counter that decimates drawing, and the (roll, pitch, heading) last drawn, if any.
  Telemetry and the serial debug print are left out.
\<close>

record indicator =
  ind_filter :: MadgwickFilter'
  gx_bias :: float
  gy_bias :: float
  gz_bias :: float
  smooth_roll :: float
  smooth_pitch :: float
  next_tick_us :: "64 word"
  last_update_us :: "64 word"
  display_counter :: "8 word"
  lcd_drawn :: "(float \<times> float \<times> float) option"

text \<open>The interval \<^verbatim>\<open>dt\<close> of an iteration of \<^verbatim>\<open>attitude_indicator_run\<close>.\<close>

definition run_dt :: "64 word \<Rightarrow> 64 word \<Rightarrow> float" where
  "run_dt prev_us now_us =
     (let dt = 1 / real (unat LOOP_HZ)
      in if prev_us \<noteq> 0 then
           let measured_dt = real (unat (now_us - prev_us)) / 1000000;
               measured_dt = (if measured_dt < 0.001 then 0.001 else measured_dt);
               measured_dt = (if measured_dt > 0.05 then 0.05 else measured_dt)
           in measured_dt
         else dt)"

text \<open>
  One iteration of the loop of \<^verbatim>\<open>attitude_indicator_run\<close>, in three parts. The first is
  the body from the conversion to physical units to the filter update, for the samples
  \<open>accel\<close> and \<open>gyro\<close> of a successful read and what \<^verbatim>\<open>icm20948_read_mag\<close> delivered
  (\<open>None\<close> when the call returned \<^verbatim>\<open>false\<close>).
\<close>

definition indicator_fuse ::
  "float \<Rightarrow> SensorData \<Rightarrow> SensorData \<Rightarrow> SensorData option \<Rightarrow> indicator \<Rightarrow> indicator" where
  "indicator_fuse dt accel gyro mag_read s =
     (let ax = icm20948_accel_to_g (sd_x accel) ACCEL_RANGE_4G;
          ay = icm20948_accel_to_g (sd_y accel) ACCEL_RANGE_4G;
          az = icm20948_accel_to_g (sd_z accel) ACCEL_RANGE_4G;
          gx = icm20948_gyro_to_dps (sd_x gyro) GYRO_RANGE_500DPS - gx_bias s;
          gy = icm20948_gyro_to_dps (sd_y gyro) GYRO_RANGE_500DPS - gy_bias s;
          gz = icm20948_gyro_to_dps (sd_z gyro) GYRO_RANGE_500DPS - gz_bias s;
          anorm2 = ax * ax + ay * ay + az * az;
          accel_valid = (anorm2 > 0.8 \<and> anorm2 < 1.2);
          flt = (ind_filter s)\<lparr>inv_sample_freq' := dt, sample_freq' := 1 / dt\<rparr>;
          flt = (case mag_read of
                   Some mag \<Rightarrow>
                     let mx = icm20948_mag_to_ut (sd_x mag);
                         my = icm20948_mag_to_ut (sd_y mag);
                         mz = icm20948_mag_to_ut (sd_z mag)
                     in madgwick_update_marg flt gx gy gz
                          (if accel_valid then ax else 0)
                          (if accel_valid then ay else 0)
                          (if accel_valid then az else 0)
                          my mx mz
                 | None \<Rightarrow>
                     madgwick_update_imu' flt gx gy gz
                       (if accel_valid then ax else 0)
                       (if accel_valid then ay else 0)
                       (if accel_valid then az else 0))
      in s\<lparr>ind_filter := flt\<rparr>)"

text \<open>
  The second part is the rest of the body: Euler angles, heading, UI smoothing and
  clamping, and drawing on every second iteration.
\<close>

definition indicator_show :: "indicator \<Rightarrow> indicator" where
  "indicator_show s =
     (let (roll, pitch, yaw) = madgwick_get_euler (ind_filter s);
          heading = wrap360 yaw;
          s = s\<lparr>smooth_roll := smooth_roll s * (1 - UI_SMOOTH) + roll * UI_SMOOTH,
                  smooth_pitch := smooth_pitch s * (1 - UI_SMOOTH) + pitch * UI_SMOOTH\<rparr>;
          s = s\<lparr>smooth_roll := clampf (smooth_roll s) (- MAX_DISPLAY_DEG) MAX_DISPLAY_DEG\<rparr>;
          s = s\<lparr>smooth_pitch := clampf (smooth_pitch s) (- MAX_DISPLAY_DEG) MAX_DISPLAY_DEG\<rparr>;
          s = s\<lparr>display_counter := display_counter s + 1\<rparr>
      in if display_counter s \<ge> 2
         then s\<lparr>display_counter := 0,
                 lcd_drawn := Some (smooth_roll s, smooth_pitch s, heading)\<rparr>
         else s)"

text \<open>
  The iteration itself. The inputs: whether KEY2 was just pressed, the time \<open>now_us\<close>,
  what \<^verbatim>\<open>icm20948_read_accel_gyro\<close> delivered and what \<^verbatim>\<open>icm20948_read_mag\<close> delivered
  (\<open>None\<close> when the call returned \<^verbatim>\<open>false\<close>). The result says whether the loop goes on,
  with the variables after the iteration.
\<close>

definition attitude_indicator_tick ::
  "bool \<Rightarrow> 64 word \<Rightarrow> (SensorData \<times> SensorData) option \<Rightarrow> SensorData option \<Rightarrow>
   indicator \<Rightarrow> bool \<times> indicator" where
  "attitude_indicator_tick key2 now_us imu_read mag_read s =
     (if key2 then (False, s)
      else if sint (now_us - next_tick_us s) < 0 then (True, s)
      else
        let dt = run_dt (last_update_us s) now_us;
            s = s\<lparr>next_tick_us := now_us + ucast LOOP_US, last_update_us := now_us\<rparr>
        in case imu_read of
             None \<Rightarrow> (True, s)
           | Some (accel, gyro) \<Rightarrow> (True, indicator_show (indicator_fuse dt accel gyro mag_read s)))"

section \<open>Binary32 arithmetic of the angle conversions\<close>

text \<open>
  \<^verbatim>\<open>quaternion_to_euler\<close>, the helpers that return degrees and \<^verbatim>\<open>wrap360\<close>, in the
  arithmetic of the target. A float is still the real number it stands for, and every
  operation is the exact operation followed by one rounding to the nearest value of the
  format, ties to even. \<open>rnd p emin\<close> rounds to the binary format with \<open>p\<close> fraction bits and
  least exponent \<open>emin\<close>: \<open>expo x\<close> is the binary exponent of \<open>x\<close>, the values of the format
  near \<open>x\<close> are the multiples of \<open>2 powi (max (expo x) emin - p)\<close> (below \<open>emin\<close> these are
  the subnormal numbers), and \<open>round_even\<close> picks the nearest multiple. \<open>rnd32\<close> is
  \<^verbatim>\<open>float\<close> and \<open>rnd64\<close> is \<^verbatim>\<open>double\<close>. Signed zeros are not distinguished.
\<close>

definition round_even :: "real \<Rightarrow> int" where
  "round_even t =
     (let n = \<lfloor>t\<rfloor>; r = t - of_int n
      in if r < 1 / 2 then n else if r > 1 / 2 then n + 1 else if even n then n else n + 1)"

definition expo :: "real \<Rightarrow> int" where
  "expo x = \<lfloor>log 2 \<bar>x\<bar>\<rfloor>"

definition rnd :: "nat \<Rightarrow> int \<Rightarrow> real \<Rightarrow> real" where
  "rnd p emin x =
     (if x = 0 then 0
      else let u = 2 powi (max (expo x) emin - int p) in u * of_int (round_even (x / u)))"

definition rnd32 :: "real \<Rightarrow> float" where
  "rnd32 x = rnd 23 (- 126) x"

definition rnd64 :: "real \<Rightarrow> real" where
  "rnd64 x = rnd 52 (- 1022) x"

text \<open>
  A float operation with exact result \<open>x\<close>. When the rounded magnitude exceeds \<open>FLT_MAX\<close>
  the operation of the C code yields an infinity, and what is computed from it is an
  infinity or NaN: this is the result \<open>None\<close>.
\<close>

definition f32 :: "real \<Rightarrow> float option" where
  "f32 x = (let r = rnd32 x in if \<bar>r\<bar> \<le> FLT_MAX then Some r else None)"

text \<open>
  \<^verbatim>\<open>M_PI\<close> is the \<^verbatim>\<open>double\<close> nearest to the literal of \<^verbatim>\<open>math.h\<close>. \<open>PI_F\<close> is the float
  nearest to it, and \<open>HALF_PI_F\<close> is the argument \<^verbatim>\<open>M_PI / 2.0f\<close> of \<^verbatim>\<open>copysignf\<close>:
  a \<^verbatim>\<open>double\<close> quotient, converted to \<^verbatim>\<open>float\<close> by the call.
\<close>

definition M_PI :: real where
  "M_PI = rnd64 3.14159265358979323846"

definition PI_F :: float where
  "PI_F = rnd32 M_PI"

definition HALF_PI_F :: float where
  "HALF_PI_F = rnd32 (rnd64 (M_PI / 2))"

text \<open>
  \<^verbatim>\<open>atan2f\<close> and \<^verbatim>\<open>asinf\<close> belong to the C library, not to the repository. They are
  parameters of the conversion, and the properties assume of them only the ranges of their
  results. \<open>libm_ideal\<close> is one such pair, for evaluating examples: the mathematical
  functions of the first section, confined to these ranges.
\<close>

record libm =
  atan2f_of :: "float \<Rightarrow> float \<Rightarrow> float"
  asinf_of :: "float \<Rightarrow> float"

definition libm_ideal :: libm where
  "libm_ideal =
     \<lparr>atan2f_of = (\<lambda>v u. max (- PI_F) (min PI_F (atan2f v u))),
      asinf_of = (\<lambda>v. max (- HALF_PI_F) (min HALF_PI_F (asinf v)))\<rparr>"

text \<open>
  \<^verbatim>\<open>quaternion_to_euler\<close>, one line per statement of the source and one \<open>f32\<close> per
  operation. \<open>sinp_f32\<close> is its local \<^verbatim>\<open>sinp\<close>.
\<close>

definition sinp_f32 :: "Quaternion \<Rightarrow> float option" where
  "sinp_f32 p = do {
     a \<leftarrow> f32 (q0 p * q2 p);
     b \<leftarrow> f32 (q3 p * q1 p);
     c \<leftarrow> f32 (a - b);
     f32 (2 * c)
   }"

definition quaternion_to_euler_f32 :: "libm \<Rightarrow> Quaternion \<Rightarrow> (float \<times> float \<times> float) option" where
  "quaternion_to_euler_f32 L p = do {
     sinr_cosp \<leftarrow> do { a \<leftarrow> f32 (q0 p * q1 p); b \<leftarrow> f32 (q2 p * q3 p); c \<leftarrow> f32 (a + b);
                     f32 (2 * c) };
     cosr_cosp \<leftarrow> do { a \<leftarrow> f32 (q1 p * q1 p); b \<leftarrow> f32 (q2 p * q2 p); c \<leftarrow> f32 (a + b);
                     d \<leftarrow> f32 (2 * c); f32 (1 - d) };
     let roll = atan2f_of L sinr_cosp cosr_cosp;
     sinp \<leftarrow> sinp_f32 p;
     let pitch = (if fabsf sinp \<ge> 1 then copysignf HALF_PI_F sinp else asinf_of L sinp);
     siny_cosp \<leftarrow> do { a \<leftarrow> f32 (q0 p * q3 p); b \<leftarrow> f32 (q1 p * q2 p); c \<leftarrow> f32 (a + b);
                     f32 (2 * c) };
     cosy_cosp \<leftarrow> do { a \<leftarrow> f32 (q2 p * q2 p); b \<leftarrow> f32 (q3 p * q3 p); c \<leftarrow> f32 (a + b);
                     d \<leftarrow> f32 (2 * c); f32 (1 - d) };
     let yaw = atan2f_of L siny_cosp cosy_cosp;
     Some (roll, pitch, yaw)
   }"

text \<open>
  The expression \<^verbatim>\<open>a * 180.0f / M_PI\<close> of the three helpers: a float product, a \<^verbatim>\<open>double\<close>
  quotient, and the conversion to \<^verbatim>\<open>float\<close> of the \<^verbatim>\<open>return\<close>. \<open>deg_of\<close> is its value when
  nothing overflows.
\<close>

definition rad_to_deg_f32 :: "float \<Rightarrow> float option" where
  "rad_to_deg_f32 a = do { b \<leftarrow> f32 (a * 180); f32 (rnd64 (b / M_PI)) }"

definition deg_of :: "float \<Rightarrow> float" where
  "deg_of a = rnd32 (rnd64 (rnd32 (a * 180) / M_PI))"

definition madgwick_get_roll_deg_f32 :: "libm \<Rightarrow> MadgwickFilter \<Rightarrow> float option" where
  "madgwick_get_roll_deg_f32 L flt = do {
     (roll, pitch, yaw) \<leftarrow> quaternion_to_euler_f32 L (q flt);
     rad_to_deg_f32 roll
   }"

definition madgwick_get_pitch_deg_f32 :: "libm \<Rightarrow> MadgwickFilter \<Rightarrow> float option" where
  "madgwick_get_pitch_deg_f32 L flt = do {
     (roll, pitch, yaw) \<leftarrow> quaternion_to_euler_f32 L (q flt);
     rad_to_deg_f32 pitch
   }"

text \<open>
  The two \<^verbatim>\<open>while\<close> loops of \<^verbatim>\<open>wrap360\<close>. A loop that never ends has the result \<open>None\<close>.
  Neither \<^verbatim>\<open>deg += 360.0f\<close> below zero nor \<^verbatim>\<open>deg -= 360.0f\<close> from 360 upwards grows in
  magnitude beyond \<open>deg\<close> or 360, so neither can overflow.
\<close>

partial_function (option) wrap_up_f32 :: "float \<Rightarrow> float option" where
  "wrap_up_f32 deg = (if deg < 0 then wrap_up_f32 (rnd32 (deg + 360)) else Some deg)"

partial_function (option) wrap_down_f32 :: "float \<Rightarrow> float option" where
  "wrap_down_f32 deg = (if deg \<ge> 360 then wrap_down_f32 (rnd32 (deg - 360)) else Some deg)"

definition wrap360_f32 :: "float \<Rightarrow> float option" where
  "wrap360_f32 deg = do { deg \<leftarrow> wrap_up_f32 deg; wrap_down_f32 deg }"


section \<open>Warnings of the Raspberry Pi application\<close>

text \<open>
  \<^verbatim>\<open>AttitudeData\<close> (fields \<^verbatim>\<open>pitch\<close>, \<^verbatim>\<open>roll\<close>, in degrees) and \<^verbatim>\<open>GPSData\<close>.
\<close>

record AttitudeData =
  att_pitch :: float
  att_roll :: float

record GPSData =
  speed_knots :: float
  altitude_meters :: float
  has_fix :: bool
  satellites :: int

text \<open>
  The local \<^verbatim>\<open>bank_limit\<close> of \<^verbatim>\<open>send_telemetry_to_pico\<close> and of
  \<^verbatim>\<open>draw_attitude_indicator\<close>, which both compute it with the same expression.
\<close>

definition bank_limit :: "GPSData \<Rightarrow> float" where
  "bank_limit gps_data = (if speed_knots gps_data \<le> 85 then 20 else 30)"

text \<open>
  \<^verbatim>\<open>send_telemetry_to_pico\<close>: the values that are formatted into the telemetry line,
  and nothing when there is no serial connection.
\<close>

record telemetry_line =
  line_pitch :: float
  line_roll :: float
  line_wifi :: bool
  line_gps :: bool
  line_bank_warning :: bool
  line_pitch_warning :: bool

definition send_telemetry_to_pico ::
  "int \<Rightarrow> GPSData \<Rightarrow> AttitudeData \<Rightarrow> bool \<Rightarrow> telemetry_line option" where
  "send_telemetry_to_pico serial_fd gps_data attitude wifi_connected =
     (if serial_fd < 0 then None
      else
        let bank_warning = fabs (att_roll attitude) > bank_limit gps_data;
            pitch_warning = fabs (att_pitch attitude) > 20
        in Some \<lparr>line_pitch = att_pitch attitude, line_roll = att_roll attitude,
                   line_wifi = wifi_connected, line_gps = has_fix gps_data,
                   line_bank_warning = bank_warning, line_pitch_warning = pitch_warning\<rparr>)"

text \<open>
  \<^verbatim>\<open>draw_attitude_indicator\<close> of the same file: the interpolated attitude it leaves in
  \<^verbatim>\<open>display_attitude\<close>, and the red warning boxes it draws for pitch and for bank.
\<close>

datatype warning_box = PITCH_UP | PITCH_DN | BANK_R | BANK_L

definition INTERPOLATION_FACTOR :: float where
  "INTERPOLATION_FACTOR = 0.3"

definition draw_attitude_indicator ::
  "GPSData \<Rightarrow> AttitudeData \<Rightarrow> AttitudeData \<Rightarrow>
   AttitudeData \<times> warning_box option \<times> warning_box option" where
  "draw_attitude_indicator gps_data attitude display_attitude =
     (let display_attitude = display_attitude
            \<lparr>att_pitch := att_pitch display_attitude +
               (att_pitch attitude - att_pitch display_attitude) * INTERPOLATION_FACTOR\<rparr>;
          display_attitude = display_attitude
            \<lparr>att_roll := att_roll display_attitude +
               (att_roll attitude - att_roll display_attitude) * INTERPOLATION_FACTOR\<rparr>;
          pitch_box =
            (if fabs (att_pitch attitude) > 20
             then Some (if att_pitch attitude > 20 then PITCH_UP else PITCH_DN)
             else None);
          bank_box =
            (if fabs (att_roll attitude) > bank_limit gps_data
             then Some (if att_roll attitude > bank_limit gps_data then BANK_R else BANK_L)
             else None)
      in (display_attitude, pitch_box, bank_box))"

section \<open>Predicates of the properties\<close>

text \<open>
  What the guards of \<^verbatim>\<open>inv_sqrt\<close> reject: a squared norm that is near zero or not
  finite. The quaternion that \<^verbatim>\<open>reset_quaternion\<close> writes.
\<close>

definition degenerate :: "float \<Rightarrow> bool" where
  "degenerate x = (x \<le> 1 / 10 ^ 20 \<or> \<not> isfinite x)"



text \<open>
  \<open>between a b v\<close>: the value \<open>v\<close> lies between \<open>a\<close> and \<open>b\<close>, in either order. The three
  gyroscope biases of the loop of \<^verbatim>\<open>action_test_gyro\<close>, together.
\<close>

definition between :: "float \<Rightarrow> float \<Rightarrow> float \<Rightarrow> bool" where
  "between a b v = (min a b \<le> v \<and> v \<le> max a b)"

definition biases :: "ahrs \<Rightarrow> float \<times> float \<times> float" where
  "biases s = (gyro_bias_x s, gyro_bias_y s, gyro_bias_z s)"

section \<open>Properties\<close>

subsection \<open>Normalization\<close>

lemma inv_sqrt_zero_iff: "inv_sqrt x = 0 \<longleftrightarrow> degenerate x"
  by (auto simp: inv_sqrt_def degenerate_def sqrtf_def)








lemma marg_rate_degenerate_mag:
  assumes "degenerate (mx * mx + my * my + mz * mz)"
  shows "update_marg_rate flt gx gy gz ax ay az mx my mz = gyro_rate flt gx gy gz"
  using assms by (simp add: update_marg_rate_def Let_def inv_sqrt_zero_iff)



text \<open>
  C4. For every filter state and every gyroscope and accelerometer input, the 9-DOF
  update called with the magnetometer components exactly (0, 0, 0) returns the filter
  state that the 6-DOF update returns on the same gyroscope and accelerometer input.
  In the loop of \<^verbatim>\<open>attitude_indicator_run\<close>, an iteration whose magnetometer read fails
  is not skipped: its filter is advanced by the 6-DOF update of its own filter library,
  on the bias-corrected gyroscope rates and the gated accelerometer sample.
\<close>

theorem madgwick_update_zero_mag:
  "madgwick_update flt gx gy gz ax ay az 0 0 0 = madgwick_update_imu flt gx gy gz ax ay az \<and>
   ind_filter (indicator_fuse dt accel gyro None s) =
     (let a1 = icm20948_accel_to_g (sd_x accel) ACCEL_RANGE_4G;
          a2 = icm20948_accel_to_g (sd_y accel) ACCEL_RANGE_4G;
          a3 = icm20948_accel_to_g (sd_z accel) ACCEL_RANGE_4G;
          accel_valid = (a1 * a1 + a2 * a2 + a3 * a3 > 0.8 \<and> a1 * a1 + a2 * a2 + a3 * a3 < 1.2)
      in madgwick_update_imu' ((ind_filter s)\<lparr>inv_sample_freq' := dt, sample_freq' := 1 / dt\<rparr>)
           (icm20948_gyro_to_dps (sd_x gyro) GYRO_RANGE_500DPS - gx_bias s)
           (icm20948_gyro_to_dps (sd_y gyro) GYRO_RANGE_500DPS - gy_bias s)
           (icm20948_gyro_to_dps (sd_z gyro) GYRO_RANGE_500DPS - gz_bias s)
           (if accel_valid then a1 else 0)
           (if accel_valid then a2 else 0)
           (if accel_valid then a3 else 0))"
  by (simp add: madgwick_update_def indicator_fuse_def Let_def)

text \<open>
  C10. In \<^verbatim>\<open>madgwick_update\<close>, when the magnetometer vector is not (0, 0, 0) and its
  squared norm is degenerate (at most 1e-20, or not finite), \<^verbatim>\<open>inv_sqrt\<close> returns 0 on
  it and the whole corrective step is skipped, whatever the accelerometer reads: the new
  state is the integration of the gyroscope rates alone, followed by the normalization.
\<close>

theorem madgwick_update_degenerate_mag:
  assumes "\<not> (mx = 0 \<and> my = 0 \<and> mz = 0)"
    and "degenerate (mx * mx + my * my + mz * mz)"
  shows "inv_sqrt (mx * mx + my * my + mz * mz) = 0 \<and>
         madgwick_update flt gx gy gz ax ay az mx my mz =
           integrate flt (gyro_rate flt gx gy gz)"
  using assms by (auto simp: madgwick_update_def marg_rate_degenerate_mag inv_sqrt_zero_iff)

theorem madgwick_update_degenerate_mag_witness:
  "\<not> ((1 / 10 ^ 11 :: float) = 0 \<and> (0 :: float) = 0 \<and> (0 :: float) = 0) \<and>
   degenerate (1 / 10 ^ 11 * (1 / 10 ^ 11) + 0 * 0 + 0 * 0) \<and>
   madgwick_update (madgwick_init 100 (1 / 10)) 0 0 0 0 0 1 (1 / 10 ^ 11) 0 0 =
     integrate (madgwick_init 100 (1 / 10)) (gyro_rate (madgwick_init 100 (1 / 10)) 0 0 0)"
proof -
  have h1: "\<not> ((1 / 10 ^ 11 :: float) = 0 \<and> (0 :: float) = 0 \<and> (0 :: float) = 0)"
    by simp
  have h2: "degenerate (1 / 10 ^ 11 * (1 / 10 ^ 11) + 0 * 0 + 0 * 0)"
    by (simp add: degenerate_def)
  show ?thesis
    using h1 h2 madgwick_update_degenerate_mag [OF h1 h2, of "madgwick_init 100 (1 / 10)" 0 0 0 0 0 1]
    by simp
qed


subsection \<open>Angles\<close>

text \<open>Rounding to the nearest integer, ties to even.\<close>

lemma round_even_bounds: "\<lfloor>t\<rfloor> \<le> round_even t \<and> round_even t \<le> \<lceil>t\<rceil>"
proof -
  have "t - of_int \<lfloor>t\<rfloor> > 0 \<Longrightarrow> \<lceil>t\<rceil> = \<lfloor>t\<rfloor> + 1"
    by (simp add: ceiling_altdef)
  moreover have "0 \<le> t - of_int \<lfloor>t\<rfloor>"
    by simp
  moreover have "\<lfloor>t\<rfloor> \<le> \<lceil>t\<rceil>"
    by (simp add: floor_le_ceiling)
  ultimately show ?thesis
    unfolding round_even_def Let_def by (smt (verit) divide_pos_pos)
qed

lemma round_even_le: "t \<le> of_int n \<Longrightarrow> round_even t \<le> n"
  using round_even_bounds [of t] by (meson ceiling_le order_trans)

lemma round_even_ge: "of_int n \<le> t \<Longrightarrow> n \<le> round_even t"
  using round_even_bounds [of t] by (meson le_floor_iff order_trans)

lemma round_even_of_int [simp]: "round_even (of_int n) = n"
  by (simp add: round_even_def)

lemma round_even_near_le: "t < of_int n + 1 / 2 \<Longrightarrow> round_even t \<le> n"
proof -
  assume a: "t < of_int n + 1 / 2"
  show ?thesis
  proof (cases "t \<le> of_int n")
    case True
    then show ?thesis by (rule round_even_le)
  next
    case False
    then have "of_int n < t" by simp
    then have f: "\<lfloor>t\<rfloor> = n"
      using a by (intro floor_unique) auto
    then have "t - of_int \<lfloor>t\<rfloor> < 1 / 2"
      using a by simp
    then show ?thesis
      by (simp add: round_even_def Let_def f)
  qed
qed

lemma round_even_near_ge: "of_int n - 1 / 2 < t \<Longrightarrow> n \<le> round_even t"
proof -
  assume a: "of_int n - 1 / 2 < t"
  show ?thesis
  proof (cases "of_int n \<le> t")
    case True
    then show ?thesis by (rule round_even_ge)
  next
    case False
    then have lt: "t < of_int n" by simp
    then have f: "\<lfloor>t\<rfloor> = n - 1"
      using a by (intro floor_unique) auto
    then have "t - of_int \<lfloor>t\<rfloor> > 1 / 2"
      using a by simp
    then show ?thesis
      by (simp add: round_even_def Let_def f)
  qed
qed

lemma round_even_minus: "round_even (- t) = - round_even t"
proof (cases "t = of_int \<lfloor>t\<rfloor>")
  case True
  then obtain n where "t = of_int n" by blast
  then show ?thesis
    by (simp flip: of_int_minus)
next
  case False
  then have fl: "\<lfloor>- t\<rfloor> = - \<lfloor>t\<rfloor> - 1"
    by (metis ceiling_altdef ceiling_def diff_minus_eq_add minus_diff_eq add.commute
        uminus_add_conv_diff minus_minus)
  have pos: "0 < t - of_int \<lfloor>t\<rfloor>"
    using False by (smt (verit) of_int_floor_le)
  have r: "- t - of_int \<lfloor>- t\<rfloor> = 1 - (t - of_int \<lfloor>t\<rfloor>)"
    by (simp add: fl)
  show ?thesis
    unfolding round_even_def Let_def r unfolding fl
    using pos by (auto simp: field_simps)
qed

text \<open>The binary exponent.\<close>

lemma powr_powi: "(2::real) powr (real_of_int k + 1) = 2 powi (k + 1)" "(2::real) powr (real_of_int k) = 2 powi k"
  using powr_real_of_int' [of 2 "k + 1"] powr_real_of_int' [of 2 k] by simp_all

lemma expo_eq: "2 powi k \<le> \<bar>x\<bar> \<Longrightarrow> \<bar>x\<bar> < 2 powi (k + 1) \<Longrightarrow> expo x = k"
proof -
  assume a: "2 powi k \<le> \<bar>x\<bar>" "\<bar>x\<bar> < 2 powi (k + 1)"
  have pos: "0 < \<bar>x\<bar>"
    using a(1) by (smt (verit) zero_less_power_int)
  have "\<lfloor>log 2 \<bar>x\<bar>\<rfloor> = k"
    using a pos by (subst floor_log_eq_powr_iff) (simp_all add: powr_powi)
  then show ?thesis
    by (simp add: expo_def)
qed

lemma expo_bounds: "x \<noteq> 0 \<Longrightarrow> 2 powi (expo x) \<le> \<bar>x\<bar> \<and> \<bar>x\<bar> < 2 powi (expo x + 1)"
proof -
  assume "x \<noteq> 0"
  then have pos: "0 < \<bar>x\<bar>" by simp
  have "\<lfloor>log 2 \<bar>x\<bar>\<rfloor> = expo x" by (simp add: expo_def)
  then show ?thesis
    using pos by (subst (asm) floor_log_eq_powr_iff) (simp_all add: powr_powi)
qed

lemma expo_minus [simp]: "expo (- x) = expo x"
  by (simp add: expo_def)

lemma expo_le: "x \<noteq> 0 \<Longrightarrow> \<bar>x\<bar> < 2 powi (k + 1) \<Longrightarrow> expo x \<le> k"
proof -
  assume a: "x \<noteq> 0" "\<bar>x\<bar> < 2 powi (k + 1)"
  have "(2::real) powi (expo x) < 2 powi (k + 1)"
    using expo_bounds [OF a(1)] a(2) by linarith
  then have "\<not> k + 1 \<le> expo x"
    using power_int_increasing [of "k + 1" "expo x" "2::real"] by auto
  then show ?thesis by simp
qed

lemma rnd_minus: "rnd p emin (- x) = - rnd p emin x"
  by (simp add: rnd_def Let_def round_even_minus)

lemma rnd_nonneg: "0 \<le> x \<Longrightarrow> 0 \<le> rnd p emin x"
proof -
  assume a: "0 \<le> x"
  have "0 \<le> round_even (x / 2 powi (max (expo x) emin - int p))"
    using a by (intro round_even_ge) simp
  then show ?thesis
    by (simp add: rnd_def Let_def)
qed

text \<open>Bounds that rounding keeps, and the evaluation of \<open>rnd\<close> at a given number.\<close>

lemma powi_split: "e \<le> K \<Longrightarrow> (2::real) powi (K - int p) = 2 powi (e - int p) * of_int (2 ^ nat (K - e))"
proof -
  assume a: "e \<le> K"
  have "(2::real) powi (K - int p) = 2 powi ((e - int p) + (K - e))"
    by simp
  also have "\<dots> = 2 powi (e - int p) * 2 powi (K - e)"
    by (subst power_int_add) simp_all
  also have "2 powi (K - e) = (2::real) ^ nat (K - e)"
    using a by (simp add: power_int_nonneg_exp)
  finally show ?thesis by simp
qed

lemma rnd_le:
  assumes "0 < x" "x \<le> c" "c = of_int m * 2 powi (K - int p)" "emin \<le> K" "x < 2 powi (K + 1)"
  shows "rnd p emin x \<le> c"
proof -
  define e where "e = max (expo x) emin"
  define u :: real where "u = 2 powi (e - int p)"
  have "expo x \<le> K"
    using assms(1,5) by (intro expo_le) simp_all
  then have eK: "e \<le> K"
    using assms(4) by (simp add: e_def)
  have u: "0 < u" by (simp add: u_def)
  have c: "c = u * of_int (m * 2 ^ nat (K - e))"
    unfolding assms(3) u_def powi_split [OF eK] by simp
  have "x / u \<le> of_int (m * 2 ^ nat (K - e))"
    using assms(2) u unfolding c by (simp add: field_simps)
  then have "round_even (x / u) \<le> m * 2 ^ nat (K - e)"
    by (rule round_even_le)
  then have "u * of_int (round_even (x / u)) \<le> u * of_int (m * 2 ^ nat (K - e))"
    using u by (intro mult_left_mono) (simp_all only: of_int_le_iff less_imp_le)
  then show ?thesis
    using assms(1) unfolding c by (simp add: rnd_def Let_def e_def u_def)
qed

lemma rnd_eval:
  assumes "2 powi K \<le> \<bar>x\<bar>" "\<bar>x\<bar> < 2 powi (K + 1)" "emin \<le> K"
    and "\<bar>x - of_int m * 2 powi (K - int p)\<bar> < 2 powi (K - int p) / 2"
  shows "rnd p emin x = of_int m * 2 powi (K - int p)"
proof -
  define u :: real where "u = 2 powi (K - int p)"
  have u: "0 < u" by (simp add: u_def)
  have e: "expo x = K"
    using assms(1,2) by (rule expo_eq)
  have x0: "x \<noteq> 0"
    using assms(1) by (smt (verit) zero_less_power_int)
  have "\<bar>x / u - of_int m\<bar> < 1 / 2"
  proof -
    have "\<bar>x / u - of_int m\<bar> = \<bar>x - of_int m * u\<bar> / u"
      using u by (simp add: field_simps abs_divide)
    also have "\<dots> < (u / 2) / u"
      using assms(4) u unfolding u_def by (intro divide_strict_right_mono) simp_all
    finally show ?thesis using u by simp
  qed
  then have "x / u < of_int m + 1 / 2" "of_int m - 1 / 2 < x / u"
    by linarith+
  then have "round_even (x / u) = m"
    using round_even_near_le round_even_near_ge by (metis order_antisym)
  then show ?thesis
    using x0 assms(3) by (simp add: rnd_def Let_def e u_def max_absorb1)
qed

lemma rnd_near_le:
  assumes "0 < x" "x < c + 2 powi (K - int p) / 2" "c = of_int m * 2 powi (K - int p)"
    and "emin \<le> K" "2 powi K \<le> c" "x < 2 powi (K + 1)"
  shows "rnd p emin x \<le> c"
proof (cases "x \<le> c")
  case True
  then show ?thesis
    using assms by (intro rnd_le [where m = m and K = K]) simp_all
next
  case False
  then have cx: "c < x" by simp
  define u :: real where "u = 2 powi (K - int p)"
  have u: "0 < u" by (simp add: u_def)
  have "expo x = K"
    using assms(1,5,6) cx by (intro expo_eq) simp_all
  then have e: "max (expo x) emin = K"
    using assms(4) by simp
  have "x / u < of_int m + 1 / 2"
    using assms(2) u unfolding assms(3) u_def [symmetric] by (simp add: field_simps)
  then have "round_even (x / u) \<le> m"
    by (rule round_even_near_le)
  then have "u * of_int (round_even (x / u)) \<le> u * of_int m"
    using u by (intro mult_left_mono) (simp_all only: of_int_le_iff less_imp_le)
  then show ?thesis
    using assms(1) unfolding assms(3) by (simp add: rnd_def Let_def e u_def mult.commute)
qed

lemma rnd_abs_le:
  assumes "\<bar>x\<bar> \<le> c" "c = of_int m * 2 powi (K - int p)" "emin \<le> K" "c < 2 powi (K + 1)"
  shows "\<bar>rnd p emin x\<bar> \<le> c"
proof -
  have c0: "0 \<le> c" using assms(1) by simp
  consider "x = 0" | "0 < x" | "x < 0" by linarith
  then show ?thesis
  proof cases
    case 1
    then show ?thesis using c0 by (simp add: rnd_def)
  next
    case 2
    then have "rnd p emin x \<le> c"
      using assms by (intro rnd_le [where m = m and K = K]) simp_all
    moreover have "0 \<le> rnd p emin x"
      using 2 by (intro rnd_nonneg) simp
    ultimately show ?thesis by simp
  next
    case 3
    then have "rnd p emin (- x) \<le> c"
      using assms by (intro rnd_le [where m = m and K = K]) simp_all
    moreover have "0 \<le> rnd p emin (- x)"
      using 3 by (intro rnd_nonneg) simp
    ultimately show ?thesis by (simp add: rnd_minus)
  qed
qed

lemma rnd_abs_le_pow:
  assumes "\<bar>x\<bar> \<le> 2 powi j" "emin \<le> j"
  shows "\<bar>rnd p emin x\<bar> \<le> 2 powi j"
proof -
  have "(2::real) powi j = 2 powi (j - int p) * of_int (2 ^ nat (j - (j - int p)))"
    using powi_split [of "j - int p" j 0] by simp
  then have c: "(2::real) powi j = of_int (2 ^ p) * 2 powi (j - int p)"
    by (simp add: mult.commute)
  have "(2::real) powi j < 2 powi (j + 1)"
    by (intro power_int_strict_increasing) simp_all
  then show ?thesis
    using assms c by (intro rnd_abs_le [where m = "2 ^ p" and K = j]) simp_all
qed

lemma rnd_val:
  assumes "2 powi K \<le> \<bar>x\<bar>" "\<bar>x\<bar> < 2 powi (K + 1)" "emin \<le> K"
    and "y = of_int m * 2 powi (K - int p)" "\<bar>x - y\<bar> < 2 powi (K - int p) / 2"
  shows "rnd p emin x = y"
  unfolding assms(4) using assms(1,2,3) assms(5) [unfolded assms(4)] by (rule rnd_eval)

lemma M_PI_val: "M_PI = 884279719003555 / 281474976710656"
  unfolding M_PI_def rnd64_def
  by (rule rnd_val [where K = 1 and m = 7074237752028440]) (simp_all add: power_int_minus_divide)

lemma PI_F_val: "PI_F = 13176795 / 4194304"
  unfolding PI_F_def M_PI_val rnd32_def
  by (rule rnd_val [where K = 1 and m = 13176795]) (simp_all add: power_int_minus_divide)

lemma HALF_PI_F_val: "HALF_PI_F = 13176795 / 8388608"
proof -
  have "rnd64 (M_PI / 2) = 884279719003555 / 562949953421312"
    unfolding M_PI_val rnd64_def
    by (rule rnd_val [where K = 0 and m = 7074237752028440]) (simp_all add: power_int_minus_divide)
  then show ?thesis
    unfolding HALF_PI_F_def rnd32_def
    by (simp only:) (rule rnd_val [where K = 0 and m = 13176795], simp_all add: power_int_minus_divide)
qed

lemma deg_90: "rnd32 (rnd64 (rnd32 (HALF_PI_F * 180) / M_PI)) = 90"
proof -
  have a: "rnd32 (HALF_PI_F * 180) = 4632467 / 16384"
    unfolding HALF_PI_F_val rnd32_def
    by (rule rnd_val [where K = 8 and m = 9264934]) (simp_all add: power_int_minus_divide)
  have b: "rnd64 (4632467 / 16384 / M_PI) = 6333187162907451 / 70368744177664"
    unfolding M_PI_val rnd64_def
    by (rule rnd_val [where K = 6 and m = 6333187162907451]) (simp_all add: power_int_minus_divide)
  have c: "rnd32 (6333187162907451 / 70368744177664) = 90"
    unfolding rnd32_def
    by (rule rnd_val [where K = 6 and m = 11796480]) (simp_all add: power_int_minus_divide)
  show ?thesis
    by (simp only: a b c)
qed

lemma wrap_stuck: "rnd32 9999999640 = 10000000000" "rnd32 10000000000 = 10000000000"
  unfolding rnd32_def
  by (rule rnd_val [where K = 33 and m = 9765625], simp_all add: power_int_minus_divide)+

lemma wrap_down_stuck: "wrap_down_f32 x = Some y \<Longrightarrow> x \<noteq> 10000000000"
proof (rule wrap_down_f32.raw_induct [where P = "\<lambda>x y. x \<noteq> 10000000000"])
  fix f :: "float \<Rightarrow> float option" and x y :: float
  assume ih: "\<And>x y. f x = Some y \<Longrightarrow> x \<noteq> 10000000000"
    and st: "(if 360 \<le> x then f (rnd32 (x - 360)) else Some x) = Some y"
  show "x \<noteq> 10000000000"
  proof
    assume x: "x = 10000000000"
    with st have "f 10000000000 = Some y"
      by (simp add: wrap_stuck)
    then show False
      using ih by blast
  qed
qed

lemma wrap_down_none: "wrap_down_f32 10000000000 = None"
  using wrap_down_stuck [of 10000000000] by (cases "wrap_down_f32 10000000000") auto

lemma wrap360_none: "wrap360_f32 10000000000 = None"
  by (simp add: wrap360_f32_def wrap_up_f32.simps wrap_down_none)

text \<open>\<^verbatim>\<open>wrap360\<close> returns for arguments of magnitude below \<open>2 ^ 31\<close>.\<close>

lemma round_even_err: "\<bar>of_int (round_even t) - t\<bar> \<le> 1 / 2"
proof -
  have "0 \<le> t - of_int \<lfloor>t\<rfloor>" "t - of_int \<lfloor>t\<rfloor> < 1"
    by linarith+
  then show ?thesis
    unfolding round_even_def Let_def by (smt (verit) of_int_add of_int_1 field_sum_of_halves)
qed

lemma rnd_err: "\<bar>rnd p emin x - x\<bar> \<le> 2 powi (max (expo x) emin - int p) / 2"
proof (cases "x = 0")
  case True
  then show ?thesis by (simp add: rnd_def)
next
  case False
  define u :: real where "u = 2 powi (max (expo x) emin - int p)"
  have u: "0 < u" by (simp add: u_def)
  have "u * of_int (round_even (x / u)) - x = u * (of_int (round_even (x / u)) - x / u)"
    using u by (simp add: right_diff_distrib)
  then have "\<bar>u * of_int (round_even (x / u)) - x\<bar> = u * \<bar>of_int (round_even (x / u)) - x / u\<bar>"
    using u by (simp only: abs_mult abs_of_pos)
  also have "\<dots> \<le> u * (1 / 2)"
    using u round_even_err [of "x / u"] by (intro mult_left_mono) simp_all
  finally show ?thesis
    using False by (simp add: rnd_def Let_def u_def)
qed

lemma rnd32_err:
  assumes "\<bar>x\<bar> < 2147483648"
  shows "\<bar>rnd32 x - x\<bar> \<le> 64"
proof (cases "x = 0")
  case True
  then show ?thesis by (simp add: rnd32_def rnd_def)
next
  case False
  have "\<bar>x\<bar> < 2 powi (30 + 1)"
    using assms by simp
  then have "expo x \<le> 30"
    using False by (intro expo_le)
  then have "max (expo x) (- 126) - int 23 \<le> 7"
    by simp
  then have "(2::real) powi (max (expo x) (- 126) - int 23) \<le> 2 powi 7"
    by (intro power_int_increasing) simp_all
  then show ?thesis
    using rnd_err [of 23 "- 126" x] by (simp add: rnd32_def)
qed

lemma rnd32_nonneg: "0 \<le> x \<Longrightarrow> 0 \<le> rnd32 x"
  by (simp add: rnd32_def rnd_nonneg)

lemma wrap_down_returns:
  "0 \<le> d \<Longrightarrow> d < 2147483648 \<Longrightarrow> \<exists>h. wrap_down_f32 d = Some h \<and> 0 \<le> h \<and> h < 360"
proof (induction "nat \<lfloor>d\<rfloor>" arbitrary: d rule: less_induct)
  case less
  show ?case
  proof (cases "360 \<le> d")
    case False
    then show ?thesis
      using less.prems by (subst wrap_down_f32.simps) simp
  next
    case True
    define d' where "d' = rnd32 (d - 360)"
    have e: "\<bar>d' - (d - 360)\<bar> \<le> 64"
      unfolding d'_def using True less.prems by (intro rnd32_err) simp
    have n: "0 \<le> d'"
      unfolding d'_def using True by (intro rnd32_nonneg) simp
    have s: "d' \<le> d - 1"
      using e by linarith
    then have "\<lfloor>d'\<rfloor> \<le> \<lfloor>d\<rfloor> - 1"
      by (metis floor_mono floor_diff_one)
    moreover have "1 \<le> \<lfloor>d\<rfloor>"
      using True by (simp add: le_floor_iff)
    ultimately have "nat \<lfloor>d'\<rfloor> < nat \<lfloor>d\<rfloor>"
      by linarith
    moreover have "d' < 2147483648"
      using s less.prems by linarith
    ultimately have "\<exists>h. wrap_down_f32 d' = Some h \<and> 0 \<le> h \<and> h < 360"
      using n by (intro less.hyps)
    then show ?thesis
      using True by (subst wrap_down_f32.simps) (simp add: d'_def)
  qed
qed

lemma wrap_up_returns:
  "- 2147483648 < deg \<Longrightarrow> deg < 2147483648 \<Longrightarrow>
   \<exists>d. wrap_up_f32 deg = Some d \<and> 0 \<le> d \<and> d < 2147483648"
proof (induction "nat \<lceil>- deg\<rceil>" arbitrary: deg rule: less_induct)
  case less
  show ?case
  proof (cases "deg < 0")
    case False
    then show ?thesis
      using less.prems by (subst wrap_up_f32.simps) simp
  next
    case True
    define d' where "d' = rnd32 (deg + 360)"
    have e: "\<bar>d' - (deg + 360)\<bar> \<le> 64"
      unfolding d'_def using True less.prems by (intro rnd32_err) (simp add: abs_if)
    have lo: "deg + 1 \<le> d'"
      using e by linarith
    have hi: "d' < 2147483648"
      using e True by linarith
    have "- d' \<le> - deg - 1"
      using lo by simp
    then have "\<lceil>- d'\<rceil> \<le> \<lceil>- deg\<rceil> - 1"
      by (metis ceiling_mono ceiling_diff_one)
    moreover have "1 \<le> \<lceil>- deg\<rceil>"
      using True by (simp add: le_ceiling_iff)
    ultimately have "nat \<lceil>- d'\<rceil> < nat \<lceil>- deg\<rceil>"
      by linarith
    moreover have "- 2147483648 < d'"
      using lo less.prems by linarith
    ultimately have "\<exists>d. wrap_up_f32 d' = Some d \<and> 0 \<le> d \<and> d < 2147483648"
      using hi by (intro less.hyps)
    then show ?thesis
      using True by (subst wrap_up_f32.simps) (simp add: d'_def)
  qed
qed

lemma wrap360_returns:
  assumes "\<bar>deg\<bar> < 2147483648"
  shows "\<exists>h. wrap360_f32 deg = Some h \<and> 0 \<le> h \<and> h < 360"
proof -
  obtain d where d: "wrap_up_f32 deg = Some d" "0 \<le> d" "d < 2147483648"
    using wrap_up_returns [of deg] assms by (auto simp: abs_if split: if_splits)
  then show ?thesis
    using wrap_down_returns [of d] by (simp add: wrap360_f32_def)
qed

text \<open>The conversion to degrees.\<close>

lemma rnd_le0:
  assumes "0 \<le> x" "x \<le> c" "c = of_int m * 2 powi (K - int p)" "emin \<le> K" "c < 2 powi (K + 1)"
  shows "rnd p emin x \<le> c"
proof (cases "x = 0")
  case True
  then show ?thesis using assms(1,2) by (simp add: rnd_def)
next
  case False
  then show ?thesis
    using assms by (intro rnd_le [where m = m and K = K]) simp_all
qed

lemma rnd_near_le0:
  assumes "0 \<le> x" "x < c + 2 powi (K - int p) / 2" "c = of_int m * 2 powi (K - int p)"
    and "emin \<le> K" "2 powi K \<le> c" "x < 2 powi (K + 1)"
  shows "rnd p emin x \<le> c"
proof (cases "x = 0")
  case True
  have "(0::real) < 2 powi K" by simp
  then have "0 \<le> c" using assms(5) by linarith
  then show ?thesis using True by (simp add: rnd_def)
next
  case False
  then show ?thesis
    using assms by (intro rnd_near_le [where m = m and K = K]) simp_all
qed

lemma deg_of_minus: "deg_of (- a) = - deg_of a"
  by (simp add: deg_of_def rnd32_def rnd64_def rnd_minus)

lemma deg_of_nonneg: "0 \<le> a \<Longrightarrow> 0 \<le> deg_of a"
  by (simp add: deg_of_def rnd32_def rnd64_def rnd_nonneg M_PI_val)

lemma roll_step1: "0 \<le> a \<Longrightarrow> a \<le> PI_F \<Longrightarrow> rnd32 (a * 180) \<le> 4632467 / 8192"
  unfolding rnd32_def PI_F_val
  by (rule rnd_le0 [where m = 9264934 and K = 9]) (simp_all add: power_int_minus_divide)

lemma roll_step2: "0 \<le> b \<Longrightarrow> b \<le> 4632467 / 8192 \<Longrightarrow> rnd64 (b / M_PI) \<le> 94371843 / 524288"
  unfolding rnd64_def M_PI_val
  by (rule rnd_le0 [where m = 6333187177316352 and K = 7])
     (simp_all add: power_int_minus_divide field_simps)

lemma roll_step3: "0 \<le> c \<Longrightarrow> c \<le> 94371843 / 524288 \<Longrightarrow> rnd32 c \<le> 180"
  unfolding rnd32_def
  by (rule rnd_near_le0 [where m = 11796480 and K = 7]) (simp_all add: power_int_minus_divide)

lemma deg_of_roll:
  assumes "\<bar>a\<bar> \<le> PI_F"
  shows "\<bar>deg_of a\<bar> \<le> 180"
proof -
  have pos: "deg_of b \<le> 180" if "0 \<le> b" "b \<le> PI_F" for b
  proof -
    have 1: "0 \<le> rnd32 (b * 180)"
      using that by (intro rnd32_nonneg) simp
    have 2: "0 \<le> rnd64 (rnd32 (b * 180) / M_PI)"
      using 1 by (simp add: rnd64_def rnd_nonneg M_PI_val)
    show ?thesis
      unfolding deg_of_def
      by (intro roll_step3 roll_step2 roll_step1 1 2 that)
  qed
  show ?thesis
  proof (cases "0 \<le> a")
    case True
    then show ?thesis
      using pos [of a] deg_of_nonneg [of a] assms by simp
  next
    case False
    then show ?thesis
      using pos [of "- a"] deg_of_nonneg [of "- a"] assms by (simp add: deg_of_minus)
  qed
qed

lemma pitch_step1: "0 \<le> a \<Longrightarrow> a \<le> HALF_PI_F \<Longrightarrow> rnd32 (a * 180) \<le> 4632467 / 16384"
  unfolding rnd32_def HALF_PI_F_val
  by (rule rnd_le0 [where m = 9264934 and K = 8]) (simp_all add: power_int_minus_divide)

lemma pitch_step2: "0 \<le> b \<Longrightarrow> b \<le> 4632467 / 16384 \<Longrightarrow> rnd64 (b / M_PI) \<le> 94371843 / 1048576"
  unfolding rnd64_def M_PI_val
  by (rule rnd_le0 [where m = 6333187177316352 and K = 6])
     (simp_all add: power_int_minus_divide field_simps)

lemma pitch_step3: "0 \<le> c \<Longrightarrow> c \<le> 94371843 / 1048576 \<Longrightarrow> rnd32 c \<le> 90"
  unfolding rnd32_def
  by (rule rnd_near_le0 [where m = 11796480 and K = 6]) (simp_all add: power_int_minus_divide)

lemma deg_of_pitch:
  assumes "\<bar>a\<bar> \<le> HALF_PI_F"
  shows "\<bar>deg_of a\<bar> \<le> 90"
proof -
  have pos: "deg_of b \<le> 90" if "0 \<le> b" "b \<le> HALF_PI_F" for b
  proof -
    have 1: "0 \<le> rnd32 (b * 180)"
      using that by (intro rnd32_nonneg) simp
    have 2: "0 \<le> rnd64 (rnd32 (b * 180) / M_PI)"
      using 1 by (simp add: rnd64_def rnd_nonneg M_PI_val)
    show ?thesis
      unfolding deg_of_def
      by (intro pitch_step3 pitch_step2 pitch_step1 1 2 that)
  qed
  show ?thesis
  proof (cases "0 \<le> a")
    case True
    then show ?thesis
      using pos [of a] deg_of_nonneg [of a] assms by simp
  next
    case False
    then show ?thesis
      using pos [of "- a"] deg_of_nonneg [of "- a"] assms by (simp add: deg_of_minus)
  qed
qed

text \<open>The conversion to Euler angles does not overflow on components up to \<open>2 ^ 60\<close>.\<close>

lemma f32_pow:
  assumes "\<bar>x\<bar> \<le> 2 ^ n" "n \<le> 127"
  shows "f32 x = Some (rnd32 x) \<and> \<bar>rnd32 x\<bar> \<le> 2 ^ n"
proof -
  have "\<bar>rnd 23 (- 126) x\<bar> \<le> 2 powi (int n)"
    using assms(1) by (intro rnd_abs_le_pow) simp_all
  then have b: "\<bar>rnd32 x\<bar> \<le> 2 ^ n"
    by (simp add: rnd32_def)
  have "(2::real) ^ n \<le> 2 ^ 127"
    using assms(2) by (intro power_increasing) simp_all
  also have "\<dots> \<le> FLT_MAX"
    by (simp add: FLT_MAX_def)
  finally have "\<bar>rnd32 x\<bar> \<le> FLT_MAX"
    using b by linarith
  then show ?thesis
    using b by (simp add: f32_def)
qed

lemma prod_bound:
  fixes x y :: real
  assumes "\<bar>x\<bar> \<le> 2 ^ 60" "\<bar>y\<bar> \<le> 2 ^ 60"
  shows "\<bar>x * y\<bar> \<le> 2 ^ 120"
proof -
  have "\<bar>x\<bar> * \<bar>y\<bar> \<le> 2 ^ 60 * 2 ^ 60"
    using assms by (intro mult_mono) simp_all
  then show ?thesis
    by (simp add: abs_mult)
qed

lemma pow2: "(2::real) ^ 121 = 2 * 2 ^ 120" "(2::real) ^ 123 = 2 * 2 ^ 122" "(1::real) \<le> 2 ^ 122"
  by simp_all

text \<open>The expression \<open>2 * (x * y + z * w)\<close> and its variants, operation by operation.\<close>

lemma sum_chain:
  assumes "\<bar>x\<bar> \<le> 2 ^ 60" "\<bar>y\<bar> \<le> 2 ^ 60" "\<bar>z\<bar> \<le> 2 ^ 60" "\<bar>w\<bar> \<le> 2 ^ 60"
  shows "\<exists>s. do { a \<leftarrow> f32 (x * y); b \<leftarrow> f32 (z * w); c \<leftarrow> f32 (a + b); f32 (2 * c) } = Some s \<and>
             \<bar>s\<bar> \<le> 2 ^ 122"
proof -
  have a: "f32 (x * y) = Some (rnd32 (x * y))" "\<bar>rnd32 (x * y)\<bar> \<le> 2 ^ 120"
    using f32_pow [OF prod_bound [OF assms(1,2)]] by simp_all
  have b: "f32 (z * w) = Some (rnd32 (z * w))" "\<bar>rnd32 (z * w)\<bar> \<le> 2 ^ 120"
    using f32_pow [OF prod_bound [OF assms(3,4)]] by simp_all
  define c where "c = rnd32 (x * y) + rnd32 (z * w)"
  have "\<bar>c\<bar> \<le> 2 ^ 121"
    using a(2) b(2) pow2 unfolding c_def by linarith
  then have c: "f32 c = Some (rnd32 c)" "\<bar>rnd32 c\<bar> \<le> 2 ^ 121"
    using f32_pow [of c 121] by simp_all
  have "\<bar>2 * rnd32 c\<bar> \<le> 2 ^ 122"
    using c(2) by simp
  then have d: "f32 (2 * rnd32 c) = Some (rnd32 (2 * rnd32 c))" "\<bar>rnd32 (2 * rnd32 c)\<bar> \<le> 2 ^ 122"
    using f32_pow [of "2 * rnd32 c" 122] by simp_all
  show ?thesis
    using a(1) b(1) c(1) d by (simp add: c_def [symmetric])
qed

lemma diff_chain:
  assumes "\<bar>x\<bar> \<le> 2 ^ 60" "\<bar>y\<bar> \<le> 2 ^ 60" "\<bar>z\<bar> \<le> 2 ^ 60" "\<bar>w\<bar> \<le> 2 ^ 60"
  shows "\<exists>s. do { a \<leftarrow> f32 (x * y); b \<leftarrow> f32 (z * w); c \<leftarrow> f32 (a - b); f32 (2 * c) } = Some s \<and>
             \<bar>s\<bar> \<le> 2 ^ 122"
proof -
  have a: "f32 (x * y) = Some (rnd32 (x * y))" "\<bar>rnd32 (x * y)\<bar> \<le> 2 ^ 120"
    using f32_pow [OF prod_bound [OF assms(1,2)]] by simp_all
  have b: "f32 (z * w) = Some (rnd32 (z * w))" "\<bar>rnd32 (z * w)\<bar> \<le> 2 ^ 120"
    using f32_pow [OF prod_bound [OF assms(3,4)]] by simp_all
  define c where "c = rnd32 (x * y) - rnd32 (z * w)"
  have "\<bar>c\<bar> \<le> 2 ^ 121"
    using a(2) b(2) pow2 unfolding c_def by linarith
  then have c: "f32 c = Some (rnd32 c)" "\<bar>rnd32 c\<bar> \<le> 2 ^ 121"
    using f32_pow [of c 121] by simp_all
  have "\<bar>2 * rnd32 c\<bar> \<le> 2 ^ 122"
    using c(2) by simp
  then have d: "f32 (2 * rnd32 c) = Some (rnd32 (2 * rnd32 c))" "\<bar>rnd32 (2 * rnd32 c)\<bar> \<le> 2 ^ 122"
    using f32_pow [of "2 * rnd32 c" 122] by simp_all
  show ?thesis
    using a(1) b(1) c(1) d by (simp add: c_def [symmetric])
qed

lemma one_minus_chain:
  assumes "\<bar>x\<bar> \<le> 2 ^ 60" "\<bar>y\<bar> \<le> 2 ^ 60"
  shows "\<exists>s. do { a \<leftarrow> f32 (x * x); b \<leftarrow> f32 (y * y); c \<leftarrow> f32 (a + b); d \<leftarrow> f32 (2 * c);
                  f32 (1 - d) } = Some s"
proof -
  obtain d where d: "do { a \<leftarrow> f32 (x * x); b \<leftarrow> f32 (y * y); c \<leftarrow> f32 (a + b); f32 (2 * c) } = Some d"
    "\<bar>d\<bar> \<le> 2 ^ 122"
    using sum_chain [OF assms(1,1) assms(2,2)] by blast
  have "\<bar>1 - d\<bar> \<le> 2 ^ 123"
    using d(2) pow2 by linarith
  then have e: "f32 (1 - d) = Some (rnd32 (1 - d))"
    using f32_pow [of "1 - d" 123] by simp
  have "do { a \<leftarrow> f32 (x * x); b \<leftarrow> f32 (y * y); c \<leftarrow> f32 (a + b); d \<leftarrow> f32 (2 * c); f32 (1 - d) } =
        do { d \<leftarrow> do { a \<leftarrow> f32 (x * x); b \<leftarrow> f32 (y * y); c \<leftarrow> f32 (a + b); f32 (2 * c) }; f32 (1 - d) }"
    by (simp add: Option.bind_assoc)
  then show ?thesis
    using d(1) e by simp
qed

lemma rad_to_deg_roll:
  assumes "\<bar>a\<bar> \<le> PI_F"
  shows "rad_to_deg_f32 a = Some (deg_of a) \<and> \<bar>deg_of a\<bar> \<le> 180"
proof -
  have "\<bar>a * 180\<bar> \<le> 2 ^ 10"
    using assms by (simp add: PI_F_val abs_mult)
  then have 1: "f32 (a * 180) = Some (rnd32 (a * 180))"
    using f32_pow [of "a * 180" 10] by simp
  have b: "\<bar>deg_of a\<bar> \<le> 180"
    using assms by (rule deg_of_roll)
  then have 2: "f32 (rnd64 (rnd32 (a * 180) / M_PI)) = Some (deg_of a)"
    by (simp add: f32_def deg_of_def FLT_MAX_def)
  show ?thesis
    using 1 2 b by (simp add: rad_to_deg_f32_def)
qed

lemma rad_to_deg_pitch:
  assumes "\<bar>a\<bar> \<le> HALF_PI_F"
  shows "rad_to_deg_f32 a = Some (deg_of a) \<and> \<bar>deg_of a\<bar> \<le> 90"
proof -
  have "\<bar>a * 180\<bar> \<le> 2 ^ 10"
    using assms by (simp add: HALF_PI_F_val abs_mult)
  then have 1: "f32 (a * 180) = Some (rnd32 (a * 180))"
    using f32_pow [of "a * 180" 10] by simp
  have b: "\<bar>deg_of a\<bar> \<le> 90"
    using assms by (rule deg_of_pitch)
  then have 2: "f32 (rnd64 (rnd32 (a * 180) / M_PI)) = Some (deg_of a)"
    by (simp add: f32_def deg_of_def FLT_MAX_def)
  show ?thesis
    using 1 2 b by (simp add: rad_to_deg_f32_def)
qed

lemma deg_of_lock: "deg_of HALF_PI_F = 90" "deg_of (- HALF_PI_F) = - 90"
  using deg_90 by (simp_all add: deg_of_minus) (simp_all add: deg_of_def)

lemma euler_f32:
  assumes at: "\<And>v u. \<bar>atan2f_of L v u\<bar> \<le> PI_F"
    and as: "\<And>v. \<bar>v\<bar> < 1 \<Longrightarrow> \<bar>asinf_of L v\<bar> \<le> HALF_PI_F"
    and qb: "\<bar>q0 p\<bar> \<le> 2 ^ 60" "\<bar>q1 p\<bar> \<le> 2 ^ 60" "\<bar>q2 p\<bar> \<le> 2 ^ 60" "\<bar>q3 p\<bar> \<le> 2 ^ 60"
  shows "\<exists>roll pitch yaw sinp.
           quaternion_to_euler_f32 L p = Some (roll, pitch, yaw) \<and> sinp_f32 p = Some sinp \<and>
           \<bar>roll\<bar> \<le> PI_F \<and> \<bar>pitch\<bar> \<le> HALF_PI_F \<and>
           (1 \<le> sinp \<longrightarrow> pitch = HALF_PI_F) \<and> (sinp \<le> - 1 \<longrightarrow> pitch = - HALF_PI_F)"
proof -
  obtain s1 where s1: "do { a \<leftarrow> f32 (q0 p * q1 p); b \<leftarrow> f32 (q2 p * q3 p); c \<leftarrow> f32 (a + b);
      f32 (2 * c) } = Some s1"
    using sum_chain [OF qb(1,2,3,4)] by blast
  obtain c1 where c1: "do { a \<leftarrow> f32 (q1 p * q1 p); b \<leftarrow> f32 (q2 p * q2 p); c \<leftarrow> f32 (a + b);
      d \<leftarrow> f32 (2 * c); f32 (1 - d) } = Some c1"
    using one_minus_chain [OF qb(2,3)] by blast
  obtain sinp where sp: "sinp_f32 p = Some sinp"
    using diff_chain [OF qb(1,3,4,2)] unfolding sinp_f32_def by blast
  obtain s2 where s2: "do { a \<leftarrow> f32 (q0 p * q3 p); b \<leftarrow> f32 (q1 p * q2 p); c \<leftarrow> f32 (a + b);
      f32 (2 * c) } = Some s2"
    using sum_chain [OF qb(1,4,2,3)] by blast
  obtain c2 where c2: "do { a \<leftarrow> f32 (q2 p * q2 p); b \<leftarrow> f32 (q3 p * q3 p); c \<leftarrow> f32 (a + b);
      d \<leftarrow> f32 (2 * c); f32 (1 - d) } = Some c2"
    using one_minus_chain [OF qb(3,4)] by blast
  define pitch where "pitch = (if fabsf sinp \<ge> 1 then copysignf HALF_PI_F sinp else asinf_of L sinp)"
  have e: "quaternion_to_euler_f32 L p = Some (atan2f_of L s1 c1, pitch, atan2f_of L s2 c2)"
    unfolding quaternion_to_euler_f32_def s1 c1 sp s2 c2 pitch_def by simp
  have hp: "0 \<le> HALF_PI_F"
    by (simp add: HALF_PI_F_val)
  have pb: "\<bar>pitch\<bar> \<le> HALF_PI_F"
    using as [of sinp] hp by (simp add: pitch_def fabsf_def copysignf_def)
  have l: "(1 \<le> sinp \<longrightarrow> pitch = HALF_PI_F) \<and> (sinp \<le> - 1 \<longrightarrow> pitch = - HALF_PI_F)"
    using hp by (simp add: pitch_def fabsf_def copysignf_def)
  show ?thesis
    using e sp at pb l by blast
qed

lemma rnd32_dyadic:
  "rnd32 (1 / 4) = 1 / 4" "rnd32 (- (1 / 4)) = - (1 / 4)" "rnd32 (1 / 2) = 1 / 2" "rnd32 1 = 1"
  "rnd32 270 = 270"
proof -
  show "rnd32 (1 / 4) = 1 / 4"
    unfolding rnd32_def
    by (rule rnd_val [where K = "- 2" and m = 8388608]) (simp_all add: power_int_minus_divide)
  then show "rnd32 (- (1 / 4)) = - (1 / 4)"
    by (simp add: rnd32_def rnd_minus)
  show "rnd32 (1 / 2) = 1 / 2"
    unfolding rnd32_def
    by (rule rnd_val [where K = "- 1" and m = 8388608]) (simp_all add: power_int_minus_divide)
  show "rnd32 1 = 1"
    unfolding rnd32_def
    by (rule rnd_val [where K = 0 and m = 8388608]) (simp_all add: power_int_minus_divide)
  show "rnd32 270 = 270"
    unfolding rnd32_def
    by (rule rnd_val [where K = 8 and m = 8847360]) (simp_all add: power_int_minus_divide)
qed

lemma f32_overflow:
  "rnd32 18446744073709551616 = 18446744073709551616"
  "f32 (18446744073709551616 * 18446744073709551616) = None"
proof -
  show "rnd32 18446744073709551616 = 18446744073709551616"
    unfolding rnd32_def
    by (rule rnd_val [where K = 64 and m = 8388608]) (simp_all add: power_int_minus_divide)
  have "rnd32 (18446744073709551616 * 18446744073709551616) =
      340282366920938463463374607431768211456"
    unfolding rnd32_def
    by (rule rnd_val [where K = 128 and m = 8388608]) (simp_all add: power_int_minus_divide)
  then show "f32 (18446744073709551616 * 18446744073709551616) = None"
    by (simp add: f32_def FLT_MAX_def)
qed

text \<open>
  C3, as amended. In binary32 arithmetic, with a C library whose \<^verbatim>\<open>atan2f\<close> returns values
  of magnitude at most \<open>PI_F\<close>, the float nearest to \<open>pi\<close>, and whose \<^verbatim>\<open>asinf\<close> returns
  values of magnitude at most \<open>HALF_PI_F\<close> on arguments inside \<open>(-1, 1)\<close>: for every
  quaternion whose components have magnitude at most \<open>2 ^ 60\<close>, \<^verbatim>\<open>quaternion_to_euler\<close>
  returns, without overflow, a roll in \<open>[-PI_F, PI_F]\<close> and a pitch in
  \<open>[-HALF_PI_F, HALF_PI_F]\<close>, and the pitch is exactly \<open>HALF_PI_F\<close> or \<open>-HALF_PI_F\<close>, with
  the sign of \<^verbatim>\<open>sinp\<close>, when \<open>|sinp| \<ge> 1\<close>, where \<^verbatim>\<open>asinf\<close> is not called. In degrees, as
  the helpers \<^verbatim>\<open>madgwick_get_roll_deg\<close> and \<^verbatim>\<open>madgwick_get_pitch_deg\<close> return them, the
  roll lies in [-180, 180], both ends included, and the pitch in [-90, 90], and the pitch
  is exactly 90 or -90 when \<open>|sinp| \<ge> 1\<close>. For every yaw of magnitude below \<open>2 ^ 31\<close>,
  \<^verbatim>\<open>wrap360\<close> returns, and the heading lies in [0, 360).
\<close>

theorem euler_angle_ranges:
  assumes "\<And>v u. \<bar>atan2f_of L v u\<bar> \<le> PI_F"
    and "\<And>v. \<bar>v\<bar> < 1 \<Longrightarrow> \<bar>asinf_of L v\<bar> \<le> HALF_PI_F"
    and "\<bar>q0 (q flt)\<bar> \<le> 2 ^ 60" "\<bar>q1 (q flt)\<bar> \<le> 2 ^ 60"
        "\<bar>q2 (q flt)\<bar> \<le> 2 ^ 60" "\<bar>q3 (q flt)\<bar> \<le> 2 ^ 60"
    and "\<bar>deg\<bar> < 2 ^ 31"
  shows "\<exists>roll pitch yaw sinp roll_deg pitch_deg heading.
           quaternion_to_euler_f32 L (q flt) = Some (roll, pitch, yaw) \<and>
           sinp_f32 (q flt) = Some sinp \<and>
           - PI_F \<le> roll \<and> roll \<le> PI_F \<and> - HALF_PI_F \<le> pitch \<and> pitch \<le> HALF_PI_F \<and>
           (1 \<le> sinp \<longrightarrow> pitch = HALF_PI_F) \<and> (sinp \<le> - 1 \<longrightarrow> pitch = - HALF_PI_F) \<and>
           madgwick_get_roll_deg_f32 L flt = Some roll_deg \<and>
           - 180 \<le> roll_deg \<and> roll_deg \<le> 180 \<and>
           madgwick_get_pitch_deg_f32 L flt = Some pitch_deg \<and>
           - 90 \<le> pitch_deg \<and> pitch_deg \<le> 90 \<and>
           (1 \<le> sinp \<longrightarrow> pitch_deg = 90) \<and> (sinp \<le> - 1 \<longrightarrow> pitch_deg = - 90) \<and>
           wrap360_f32 deg = Some heading \<and> 0 \<le> heading \<and> heading < 360"
proof -
  obtain roll pitch yaw sinp where
    e: "quaternion_to_euler_f32 L (q flt) = Some (roll, pitch, yaw)" "sinp_f32 (q flt) = Some sinp"
      "\<bar>roll\<bar> \<le> PI_F" "\<bar>pitch\<bar> \<le> HALF_PI_F"
      "1 \<le> sinp \<longrightarrow> pitch = HALF_PI_F" "sinp \<le> - 1 \<longrightarrow> pitch = - HALF_PI_F"
    using euler_f32 [OF assms(1,2,3,4,5,6)] by blast
  have r: "madgwick_get_roll_deg_f32 L flt = Some (deg_of roll)" "\<bar>deg_of roll\<bar> \<le> 180"
    using rad_to_deg_roll [OF e(3)] by (simp_all add: madgwick_get_roll_deg_f32_def e(1))
  have p: "madgwick_get_pitch_deg_f32 L flt = Some (deg_of pitch)" "\<bar>deg_of pitch\<bar> \<le> 90"
    using rad_to_deg_pitch [OF e(4)] by (simp_all add: madgwick_get_pitch_deg_f32_def e(1))
  have l: "1 \<le> sinp \<longrightarrow> deg_of pitch = 90" "sinp \<le> - 1 \<longrightarrow> deg_of pitch = - 90"
    using e(5,6) deg_of_lock by auto
  obtain heading where h: "wrap360_f32 deg = Some heading" "0 \<le> heading" "heading < 360"
    using wrap360_returns [of deg] assms(7) by auto
  have b: "- PI_F \<le> roll" "roll \<le> PI_F" "- HALF_PI_F \<le> pitch" "pitch \<le> HALF_PI_F"
    "- 180 \<le> deg_of roll" "deg_of roll \<le> 180" "- 90 \<le> deg_of pitch" "deg_of pitch \<le> 90"
    using e(3,4) r(2) p(2) by linarith+
  show ?thesis
    using e(1,2,5,6) r(1) p(1) l h b by blast
qed

theorem euler_angle_ranges_witness:
  "sinp_f32 \<lparr>q0 = 1 / 2, q1 = 1 / 2, q2 = 1 / 2, q3 = - (1 / 2)\<rparr> = Some 1 \<and>
   madgwick_get_pitch_deg_f32 libm_ideal
     \<lparr>q = \<lparr>q0 = 1 / 2, q1 = 1 / 2, q2 = 1 / 2, q3 = - (1 / 2)\<rparr>, beta = 1 / 10,
      sample_freq = 100, inv_sample_freq = 1 / 100\<rparr> = Some 90 \<and>
   (\<exists>roll_deg. madgwick_get_roll_deg_f32 libm_ideal
     \<lparr>q = \<lparr>q0 = 1 / 2, q1 = 1 / 2, q2 = 1 / 2, q3 = - (1 / 2)\<rparr>, beta = 1 / 10,
      sample_freq = 100, inv_sample_freq = 1 / 100\<rparr> = Some roll_deg \<and>
      - 180 \<le> roll_deg \<and> roll_deg \<le> 180) \<and>
   wrap360_f32 (- 90) = Some 270"
proof -
  let ?p = "\<lparr>q0 = 1 / 2, q1 = 1 / 2, q2 = 1 / 2, q3 = - (1 / 2)\<rparr> :: Quaternion"
  let ?f = "\<lparr>q = ?p, beta = 1 / 10, sample_freq = 100, inv_sample_freq = 1 / 100\<rparr>"
  have at: "\<And>v u. \<bar>atan2f_of libm_ideal v u\<bar> \<le> PI_F"
    by (simp add: libm_ideal_def PI_F_val abs_le_iff)
  have as: "\<And>v. \<bar>v\<bar> < 1 \<Longrightarrow> \<bar>asinf_of libm_ideal v\<bar> \<le> HALF_PI_F"
    by (simp add: libm_ideal_def HALF_PI_F_val abs_le_iff)
  have small: "\<bar>q0 (q ?f)\<bar> \<le> 2 ^ 60" "\<bar>q1 (q ?f)\<bar> \<le> 2 ^ 60" "\<bar>q2 (q ?f)\<bar> \<le> 2 ^ 60"
    "\<bar>q3 (q ?f)\<bar> \<le> 2 ^ 60" "\<bar>- 90 :: real\<bar> < 2 ^ 31"
    by simp_all
  have f: "f32 (1 / 4) = Some (1 / 4)" "f32 (- (1 / 4)) = Some (- (1 / 4))"
    "f32 (1 / 2) = Some (1 / 2)" "f32 1 = Some 1"
    by (simp_all add: f32_def rnd32_dyadic FLT_MAX_def)
  have s: "sinp_f32 ?p = Some 1"
    by (simp add: sinp_f32_def f)
  have w: "wrap360_f32 (- 90) = Some 270"
    by (simp add: wrap360_f32_def wrap_up_f32.simps wrap_down_f32.simps rnd32_dyadic)
  from euler_angle_ranges [of libm_ideal ?f "- 90", OF at as small]
  obtain roll_deg pitch_deg sinp where
    r: "sinp_f32 (q ?f) = Some sinp" "madgwick_get_roll_deg_f32 libm_ideal ?f = Some roll_deg"
      "- 180 \<le> roll_deg" "roll_deg \<le> 180"
      "madgwick_get_pitch_deg_f32 libm_ideal ?f = Some pitch_deg" "1 \<le> sinp \<longrightarrow> pitch_deg = 90"
    by blast
  have "sinp = 1"
    using r(1) s by simp
  then have "madgwick_get_pitch_deg_f32 libm_ideal ?f = Some 90"
    using r(5,6) by simp
  then show ?thesis
    using s w r(2,3,4) by blast
qed

text \<open>
  C3 as stated fails for large inputs. The float \<open>1e10\<close> is finite, its neighbours are 1024
  apart, and \<open>1e10 - 360\<close> rounds back to \<open>1e10\<close>: the second loop of \<^verbatim>\<open>wrap360\<close> never
  ends and no heading is produced. The float \<open>2 ^ 64\<close> is finite, and for the quaternion
  whose four components are \<open>2 ^ 64\<close> every product overflows: in the C code \<^verbatim>\<open>sinp\<close> is
  the difference of two infinities, and the pitch is \<^verbatim>\<open>asinf\<close> of a NaN, not a number of
  [-90, 90].
\<close>

theorem angles_without_result:
  "rnd32 10000000000 = 10000000000 \<and> isfinite 10000000000 \<and>
   rnd32 (10000000000 - 360) = 10000000000 \<and> wrap360_f32 10000000000 = None \<and>
   rnd32 18446744073709551616 = 18446744073709551616 \<and> isfinite 18446744073709551616 \<and>
   quaternion_to_euler_f32 libm_ideal
     \<lparr>q0 = 18446744073709551616, q1 = 18446744073709551616,
      q2 = 18446744073709551616, q3 = 18446744073709551616\<rparr> = None"
proof -
  have "quaternion_to_euler_f32 libm_ideal
     \<lparr>q0 = 18446744073709551616, q1 = 18446744073709551616,
      q2 = 18446744073709551616, q3 = 18446744073709551616\<rparr> = None"
    unfolding quaternion_to_euler_f32_def by (simp only: Quaternion.simps f32_overflow) simp
  then show ?thesis
    using wrap_stuck wrap360_none f32_overflow(1) by (simp add: isfinite_def FLT_MAX_def)
qed

subsection \<open>Sensor driver\<close>

lemmas range_defs = GYRO_RANGE_250DPS_def GYRO_RANGE_500DPS_def GYRO_RANGE_1000DPS_def
  GYRO_RANGE_2000DPS_def ACCEL_RANGE_2G_def ACCEL_RANGE_4G_def ACCEL_RANGE_8G_def
  ACCEL_RANGE_16G_def

text \<open>
  C8. The conversions are functions of the raw signed 16-bit value and the range alone.
  Each enumerator selects its divisor: 16384, 8192, 4096, 2048 LSB per g and 131, 65.5,
  32.8, 16.4 LSB per deg/s; in particular the 4 g range divides by 8192 and the
  500 deg/s range by 65.5. A range value that is none of the enumerators falls back to
  the divisors of the 4 g and 500 deg/s ranges.
\<close>

theorem raw_conversion:
  "icm20948_accel_to_g r ACCEL_RANGE_2G = real_of_int (sint r) / 16384 \<and>
   icm20948_accel_to_g r ACCEL_RANGE_4G = real_of_int (sint r) / 8192 \<and>
   icm20948_accel_to_g r ACCEL_RANGE_8G = real_of_int (sint r) / 4096 \<and>
   icm20948_accel_to_g r ACCEL_RANGE_16G = real_of_int (sint r) / 2048 \<and>
   icm20948_gyro_to_dps r GYRO_RANGE_250DPS = real_of_int (sint r) / 131 \<and>
   icm20948_gyro_to_dps r GYRO_RANGE_500DPS = real_of_int (sint r) / 65.5 \<and>
   icm20948_gyro_to_dps r GYRO_RANGE_1000DPS = real_of_int (sint r) / 32.8 \<and>
   icm20948_gyro_to_dps r GYRO_RANGE_2000DPS = real_of_int (sint r) / 16.4 \<and>
   (rng \<notin> {ACCEL_RANGE_2G, ACCEL_RANGE_4G, ACCEL_RANGE_8G, ACCEL_RANGE_16G} \<longrightarrow>
      icm20948_accel_to_g r rng = real_of_int (sint r) / 8192) \<and>
   (rng \<notin> {GYRO_RANGE_250DPS, GYRO_RANGE_500DPS, GYRO_RANGE_1000DPS, GYRO_RANGE_2000DPS} \<longrightarrow>
      icm20948_gyro_to_dps r rng = real_of_int (sint r) / 65.5)"
  by (simp add: icm20948_accel_to_g_def icm20948_gyro_to_dps_def range_defs)

theorem raw_conversion_witness:
  "(7 :: int) \<notin> {ACCEL_RANGE_2G, ACCEL_RANGE_4G, ACCEL_RANGE_8G, ACCEL_RANGE_16G} \<and>
   icm20948_accel_to_g (- 8192) 7 = - 1 \<and>
   (7 :: int) \<notin> {GYRO_RANGE_250DPS, GYRO_RANGE_500DPS, GYRO_RANGE_1000DPS, GYRO_RANGE_2000DPS} \<and>
   icm20948_gyro_to_dps 131 7 = 2 \<and>
   icm20948_accel_to_g 8192 ACCEL_RANGE_4G = 1 \<and>
   icm20948_gyro_to_dps 655 GYRO_RANGE_500DPS = 10"
  using raw_conversion [of "- 8192" 7] raw_conversion [of 131 7] raw_conversion [of 8192 7]
    raw_conversion [of 655 7]
  by (simp add: range_defs)

text \<open>
  C9. \<^verbatim>\<open>icm20948_read_accel\<close>, \<^verbatim>\<open>icm20948_read_gyro\<close> and \<^verbatim>\<open>icm20948_read_accel_gyro\<close>
  return \<^verbatim>\<open>false\<close> exactly when a pointer argument is \<^verbatim>\<open>NULL\<close>, whatever bytes the bus
  delivers. \<^verbatim>\<open>icm20948_read_mag\<close> returns \<^verbatim>\<open>false\<close> also when the data-ready bit of ST1 is
  clear or the overflow bit of ST2 is set, so it is the only read that can report a
  failure for a pointer that is not \<^verbatim>\<open>NULL\<close>.
\<close>

theorem read_results:
  "(fst (icm20948_read_accel data miso dev) = False \<longleftrightarrow> data = None) \<and>
   (fst (icm20948_read_gyro data miso dev) = False \<longleftrightarrow> data = None) \<and>
   (fst (icm20948_read_accel_gyro accel gyro miso dev) = False \<longleftrightarrow> accel = None \<or> gyro = None) \<and>
   (fst (icm20948_read_mag data miso dev) = False \<longleftrightarrow>
      data = None \<or> miso 0 AND 0x01 = 0 \<or> miso 7 AND 0x08 \<noteq> 0)"
  by (simp add: icm20948_read_accel_def icm20948_read_gyro_def icm20948_read_accel_gyro_def
      icm20948_read_mag_def Let_def read_registers_def split: prod.splits)

theorem read_results_witness:
  "fst (icm20948_read_accel (Some \<lparr>sd_x = 0, sd_y = 0, sd_z = 0\<rparr>) (\<lambda>i. 0)
          \<lparr>current_bank = 0xFF, spi_written = []\<rparr>) \<and>
   fst (icm20948_read_gyro (Some \<lparr>sd_x = 0, sd_y = 0, sd_z = 0\<rparr>) (\<lambda>i. 0)
          \<lparr>current_bank = 0xFF, spi_written = []\<rparr>) \<and>
   fst (icm20948_read_accel_gyro (Some \<lparr>sd_x = 0, sd_y = 0, sd_z = 0\<rparr>)
          (Some \<lparr>sd_x = 0, sd_y = 0, sd_z = 0\<rparr>) (\<lambda>i. 0)
          \<lparr>current_bank = 0xFF, spi_written = []\<rparr>) \<and>
   \<not> fst (icm20948_read_mag (Some \<lparr>sd_x = 0, sd_y = 0, sd_z = 0\<rparr>) (\<lambda>i. 0)
          \<lparr>current_bank = 0xFF, spi_written = []\<rparr>) \<and>
   \<not> fst (icm20948_read_accel None (\<lambda>i. 0) \<lparr>current_bank = 0xFF, spi_written = []\<rparr>)"
  using read_results
    [of "Some \<lparr>sd_x = 0, sd_y = 0, sd_z = 0\<rparr>" "\<lambda>i. 0"
        "\<lparr>current_bank = 0xFF, spi_written = []\<rparr>"
        "Some \<lparr>sd_x = 0, sd_y = 0, sd_z = 0\<rparr>" "Some \<lparr>sd_x = 0, sd_y = 0, sd_z = 0\<rparr>"]
    read_results
    [of None "\<lambda>i. 0" "\<lparr>current_bank = 0xFF, spi_written = []\<rparr>" None None]
  by simp


subsection \<open>Loop\<close>

lemma tick_dt_range: "0 < tick_dt prev now \<and> tick_dt prev now \<le> 0.2"
  by (simp add: tick_dt_def Let_def not_le)

lemma bias_alpha_range: "0 < dt \<Longrightarrow> 0 < bias_alpha_of dt \<and> bias_alpha_of dt \<le> 0.02"
  by (simp add: bias_alpha_of_def Let_def not_less)



lemma blend_between:
  assumes "0 \<le> alpha" "alpha \<le> 1"
  shows "between old raw ((1 - alpha) * old + alpha * raw)"
proof -
  have e: "(1 - alpha) * old + alpha * raw = old + alpha * (raw - old)"
    by (simp add: algebra_simps)
  have up: "\<And>d::real. 0 \<le> d \<Longrightarrow> d \<le> raw - old \<Longrightarrow> old \<le> old + d \<and> old + d \<le> raw"
    by linarith
  have down: "\<And>d::real. d \<le> 0 \<Longrightarrow> raw - old \<le> d \<Longrightarrow> raw \<le> old + d \<and> old + d \<le> old"
    by linarith
  show ?thesis
  proof (cases "old \<le> raw")
    case True
    have h1: "0 \<le> alpha * (raw - old)"
      using True assms by simp
    have "alpha * (raw - old) \<le> 1 * (raw - old)"
      using True assms by (intro mult_right_mono) simp_all
    then have h2: "alpha * (raw - old) \<le> raw - old"
      by simp
    have m: "min old raw = old" "max old raw = raw"
      using True by simp_all
    show ?thesis
      unfolding between_def e m by (rule up [OF h1 h2])
  next
    case False
    have h1: "alpha * (raw - old) \<le> 0"
      using False assms by (intro mult_nonneg_nonpos) simp_all
    have "1 * (raw - old) \<le> alpha * (raw - old)"
      using False assms by (intro mult_right_mono_neg) simp_all
    then have h2: "raw - old \<le> alpha * (raw - old)"
      by simp
    have m: "min old raw = raw" "max old raw = old"
      using False by simp_all
    show ?thesis
      unfolding between_def e m by (rule down [OF h1 h2])
  qed
qed

lemma blend_step:
  fixes alpha old raw :: real
  assumes "0 \<le> alpha" "alpha \<le> 0.02"
  shows "\<bar>((1 - alpha) * old + alpha * raw) - old\<bar> \<le> 0.02 * \<bar>raw - old\<bar>"
proof -
  have "((1 - alpha) * old + alpha * raw) - old = alpha * (raw - old)"
    by (simp add: algebra_simps)
  then have "\<bar>((1 - alpha) * old + alpha * raw) - old\<bar> = alpha * \<bar>raw - old\<bar>"
    using assms by (simp add: abs_mult)
  also have "\<dots> \<le> 0.02 * \<bar>raw - old\<bar>"
    using assms mult_right_mono [of alpha "0.02" "\<bar>raw - old\<bar>"] by simp
  finally show ?thesis .
qed

lemma bias_alpha_min: "bias_alpha_of dt = min (dt * 0.08) 0.02"
  by (simp add: bias_alpha_of_def Let_def min_def)

lemma stationary_small:
  assumes "stationary_test ax ay az gx gy gz"
  shows "isfinite gx \<and> isfinite gy \<and> isfinite gz \<and>
         \<not> fabsf gx > 2000 \<and> \<not> fabsf gy > 2000 \<and> \<not> fabsf gz > 2000"
  using assms by (simp add: stationary_test_def Let_def isfinite_def fabsf_def FLT_MAX_def)

lemma tick_biases:
  "biases (snd (action_test_gyro_tick False (Some accel) (Some gyro) now s)) =
     (let dt = tick_dt (last_update s) now;
          ax = icm20948_accel_to_g (sd_x accel) ACCEL_RANGE_4G - accel_bias_x s;
          ay = icm20948_accel_to_g (sd_y accel) ACCEL_RANGE_4G - accel_bias_y s;
          az = icm20948_accel_to_g (sd_z accel) ACCEL_RANGE_4G - accel_bias_z s;
          gx_raw_dps = icm20948_gyro_to_dps (sd_x gyro) GYRO_RANGE_500DPS;
          gy_raw_dps = icm20948_gyro_to_dps (sd_y gyro) GYRO_RANGE_500DPS;
          gz_raw_dps = icm20948_gyro_to_dps (sd_z gyro) GYRO_RANGE_500DPS;
          alpha = bias_alpha_of dt
      in if stationary_test ax ay az (gx_raw_dps - gyro_bias_x s) (gy_raw_dps - gyro_bias_y s)
              (gz_raw_dps - gyro_bias_z s)
         then ((1 - alpha) * gyro_bias_x s + alpha * gx_raw_dps,
               (1 - alpha) * gyro_bias_y s + alpha * gy_raw_dps,
               (1 - alpha) * gyro_bias_z s + alpha * gz_raw_dps)
         else biases s)"
proof -
  let ?ax = "icm20948_accel_to_g (sd_x accel) ACCEL_RANGE_4G - accel_bias_x s"
  let ?ay = "icm20948_accel_to_g (sd_y accel) ACCEL_RANGE_4G - accel_bias_y s"
  let ?az = "icm20948_accel_to_g (sd_z accel) ACCEL_RANGE_4G - accel_bias_z s"
  let ?gx = "icm20948_gyro_to_dps (sd_x gyro) GYRO_RANGE_500DPS - gyro_bias_x s"
  let ?gy = "icm20948_gyro_to_dps (sd_y gyro) GYRO_RANGE_500DPS - gyro_bias_y s"
  let ?gz = "icm20948_gyro_to_dps (sd_z gyro) GYRO_RANGE_500DPS - gyro_bias_z s"
  show ?thesis
  proof (cases "stationary_test ?ax ?ay ?az ?gx ?gy ?gz")
    case True
    note sm = stationary_small [OF True]
    show ?thesis
      using True sm
      by (simp add: action_test_gyro_tick_def Let_def biases_def split: if_splits)
  next
    case False
    show ?thesis
      using False
      by (simp add: action_test_gyro_tick_def Let_def biases_def split: if_splits)
  qed
qed


lemma integrate_keeps_dt: "inv_sample_freq (integrate flt qDot) = inv_sample_freq flt"
  by (simp add: integrate_def Let_def reset_quaternion_def)

lemma update_imu_keeps_dt:
  "inv_sample_freq (madgwick_update_imu flt gx gy gz ax ay az) = inv_sample_freq flt"
  by (simp add: madgwick_update_imu_def integrate_keeps_dt)

lemma integrate'_keeps_dt: "inv_sample_freq' (integrate' flt qDot) = inv_sample_freq' flt"
  by (cases qDot) (simp add: integrate'_def Let_def)

lemma update_imu'_keeps_dt:
  "inv_sample_freq' (madgwick_update_imu' flt gx gy gz ax ay az) = inv_sample_freq' flt"
  by (simp add: madgwick_update_imu'_def Let_def integrate'_keeps_dt)

lemma update_marg_keeps_dt:
  "inv_sample_freq' (madgwick_update_marg flt gx gy gz ax ay az mx my mz) = inv_sample_freq' flt"
  by (simp add: madgwick_update_marg_def Let_def integrate'_keeps_dt)

lemma nominal_dt: "1 / real (unat LOOP_HZ) = 1 / 100"
  by (simp add: LOOP_HZ_def)

lemma run_dt_eq:
  "run_dt prev_us now_us =
     (if prev_us \<noteq> 0
      then min (max (real (unat (now_us - prev_us)) / 1000000) (1 / 1000)) (5 / 100)
      else 1 / 100)"
  unfolding run_dt_def Let_def nominal_dt
  by (simp only: min_def max_def) (simp split: if_split)

lemma run_dt_range: "1 / 1000 \<le> run_dt prev_us now_us \<and> run_dt prev_us now_us \<le> 5 / 100"
  unfolding run_dt_eq by (simp add: min_def max_def)

lemma fuse_filter_dt: "inv_sample_freq' (ind_filter (indicator_fuse dt accel gyro mag_read s)) = dt"
  by (simp add: indicator_fuse_def Let_def update_imu'_keeps_dt update_marg_keeps_dt
      split: option.split)

lemma show_keeps_filter: "ind_filter (indicator_show s) = ind_filter s"
  by (simp add: indicator_show_def Let_def split: prod.split)

lemma tick_skip:
  "key2 \<or> accel_read = None \<or> gyro_read = None \<Longrightarrow>
     action_test_gyro_tick key2 accel_read gyro_read now s = (\<not> key2, s)"
  by (auto simp: action_test_gyro_tick_def split: option.split)

lemma trim_aux:
  fixes s :: ahrs and accel gyro :: SensorData and now :: "64 word"
  defines "dt \<equiv> tick_dt (last_update s) now"
    and "ax \<equiv> icm20948_accel_to_g (sd_x accel) ACCEL_RANGE_4G - accel_bias_x s"
    and "ay \<equiv> icm20948_accel_to_g (sd_y accel) ACCEL_RANGE_4G - accel_bias_y s"
    and "az \<equiv> icm20948_accel_to_g (sd_z accel) ACCEL_RANGE_4G - accel_bias_z s"
    and "gx_raw \<equiv> icm20948_gyro_to_dps (sd_x gyro) GYRO_RANGE_500DPS"
    and "gy_raw \<equiv> icm20948_gyro_to_dps (sd_y gyro) GYRO_RANGE_500DPS"
    and "gz_raw \<equiv> icm20948_gyro_to_dps (sd_z gyro) GYRO_RANGE_500DPS"
    and "s' \<equiv> snd (action_test_gyro_tick False (Some accel) (Some gyro) now s)"
  defines "alpha \<equiv> bias_alpha_of dt"
    and "stationary \<equiv> stationary_test ax ay az (gx_raw - gyro_bias_x s)
          (gy_raw - gyro_bias_y s) (gz_raw - gyro_bias_z s)"
  shows "alpha = min (dt * 0.08) 0.02 \<and> 0 < alpha \<and> alpha \<le> 0.02 \<and>
       (stationary \<longrightarrow>
          gyro_bias_x s' = (1 - alpha) * gyro_bias_x s + alpha * gx_raw \<and>
          gyro_bias_y s' = (1 - alpha) * gyro_bias_y s + alpha * gy_raw \<and>
          gyro_bias_z s' = (1 - alpha) * gyro_bias_z s + alpha * gz_raw \<and>
          between (gyro_bias_x s) gx_raw (gyro_bias_x s') \<and>
          between (gyro_bias_y s) gy_raw (gyro_bias_y s') \<and>
          between (gyro_bias_z s) gz_raw (gyro_bias_z s') \<and>
          \<bar>gyro_bias_x s' - gyro_bias_x s\<bar> \<le> 0.02 * \<bar>gx_raw - gyro_bias_x s\<bar> \<and>
          \<bar>gyro_bias_y s' - gyro_bias_y s\<bar> \<le> 0.02 * \<bar>gy_raw - gyro_bias_y s\<bar> \<and>
          \<bar>gyro_bias_z s' - gyro_bias_z s\<bar> \<le> 0.02 * \<bar>gz_raw - gyro_bias_z s\<bar>) \<and>
       (\<not> stationary \<longrightarrow> biases s' = biases s)"
proof -
  have dt: "0 < dt"
    using tick_dt_range [of "last_update s" now] by (simp add: dt_def)
  have a: "0 < alpha" "alpha \<le> 0.02"
    using bias_alpha_range [OF dt] by (simp_all add: alpha_def)
  then have a01: "0 \<le> alpha" "alpha \<le> 1"
    by simp_all
  have b: "biases s' =
      (if stationary
       then ((1 - alpha) * gyro_bias_x s + alpha * gx_raw,
             (1 - alpha) * gyro_bias_y s + alpha * gy_raw,
             (1 - alpha) * gyro_bias_z s + alpha * gz_raw)
       else biases s)"
    using tick_biases [of accel gyro now s]
    by (simp only: Let_def s'_def stationary_def alpha_def dt_def ax_def ay_def az_def
        gx_raw_def gy_raw_def gz_raw_def)
  have moved: "gyro_bias_x s' = (1 - alpha) * gyro_bias_x s + alpha * gx_raw \<and>
      gyro_bias_y s' = (1 - alpha) * gyro_bias_y s + alpha * gy_raw \<and>
      gyro_bias_z s' = (1 - alpha) * gyro_bias_z s + alpha * gz_raw" if stationary
    using b that by (simp add: biases_def)
  have kept: "biases s' = biases s" if "\<not> stationary"
    using b that by simp
  have "alpha = min (dt * 0.08) 0.02"
    by (simp only: alpha_def bias_alpha_min)
  moreover have "stationary \<longrightarrow>
          gyro_bias_x s' = (1 - alpha) * gyro_bias_x s + alpha * gx_raw \<and>
          gyro_bias_y s' = (1 - alpha) * gyro_bias_y s + alpha * gy_raw \<and>
          gyro_bias_z s' = (1 - alpha) * gyro_bias_z s + alpha * gz_raw \<and>
          between (gyro_bias_x s) gx_raw (gyro_bias_x s') \<and>
          between (gyro_bias_y s) gy_raw (gyro_bias_y s') \<and>
          between (gyro_bias_z s) gz_raw (gyro_bias_z s') \<and>
          \<bar>gyro_bias_x s' - gyro_bias_x s\<bar> \<le> 0.02 * \<bar>gx_raw - gyro_bias_x s\<bar> \<and>
          \<bar>gyro_bias_y s' - gyro_bias_y s\<bar> \<le> 0.02 * \<bar>gy_raw - gyro_bias_y s\<bar> \<and>
          \<bar>gyro_bias_z s' - gyro_bias_z s\<bar> \<le> 0.02 * \<bar>gz_raw - gyro_bias_z s\<bar>"
  proof
    assume st: stationary
    note m = moved [OF st]
    show "gyro_bias_x s' = (1 - alpha) * gyro_bias_x s + alpha * gx_raw \<and>
          gyro_bias_y s' = (1 - alpha) * gyro_bias_y s + alpha * gy_raw \<and>
          gyro_bias_z s' = (1 - alpha) * gyro_bias_z s + alpha * gz_raw \<and>
          between (gyro_bias_x s) gx_raw (gyro_bias_x s') \<and>
          between (gyro_bias_y s) gy_raw (gyro_bias_y s') \<and>
          between (gyro_bias_z s) gz_raw (gyro_bias_z s') \<and>
          \<bar>gyro_bias_x s' - gyro_bias_x s\<bar> \<le> 0.02 * \<bar>gx_raw - gyro_bias_x s\<bar> \<and>
          \<bar>gyro_bias_y s' - gyro_bias_y s\<bar> \<le> 0.02 * \<bar>gy_raw - gyro_bias_y s\<bar> \<and>
          \<bar>gyro_bias_z s' - gyro_bias_z s\<bar> \<le> 0.02 * \<bar>gz_raw - gyro_bias_z s\<bar>"
      unfolding m [THEN conjunct1] m [THEN conjunct2, THEN conjunct1]
        m [THEN conjunct2, THEN conjunct2]
      by (intro conjI refl blend_between [OF a01] blend_step [OF a01(1) a(2)])
  qed
  ultimately show ?thesis
    using a kept by blast
qed

text \<open>
  C5. In an iteration of the loop of \<^verbatim>\<open>action_test_gyro\<close> whose two reads succeed, with
  \<open>dt\<close> the validated interval and \<open>alpha = min (dt * 0.08) 0.02\<close> (which is positive and
  at most 0.02): when the stationary condition holds (accelerometer norm finite and within
  0.08 of 1, the three bias-corrected gyroscope rates below 1.2 deg/s in magnitude), each
  gyroscope bias becomes \<open>(1 - alpha) * old + alpha * raw\<close>, which lies between the old bias
  and the raw reading and differs from the old bias by at most 2 percent of their
  difference; when the condition does not hold, the three biases are unchanged. They are
  unchanged as well in an iteration that ends on KEY2 or on a failed read.
\<close>

theorem adaptive_bias_trim:
  "(let dt = tick_dt (last_update s) now;
        alpha = bias_alpha_of dt;
        ax = icm20948_accel_to_g (sd_x accel) ACCEL_RANGE_4G - accel_bias_x s;
        ay = icm20948_accel_to_g (sd_y accel) ACCEL_RANGE_4G - accel_bias_y s;
        az = icm20948_accel_to_g (sd_z accel) ACCEL_RANGE_4G - accel_bias_z s;
        gx_raw = icm20948_gyro_to_dps (sd_x gyro) GYRO_RANGE_500DPS;
        gy_raw = icm20948_gyro_to_dps (sd_y gyro) GYRO_RANGE_500DPS;
        gz_raw = icm20948_gyro_to_dps (sd_z gyro) GYRO_RANGE_500DPS;
        stationary = stationary_test ax ay az (gx_raw - gyro_bias_x s) (gy_raw - gyro_bias_y s)
                       (gz_raw - gyro_bias_z s);
        s' = snd (action_test_gyro_tick False (Some accel) (Some gyro) now s)
    in alpha = min (dt * 0.08) 0.02 \<and> 0 < alpha \<and> alpha \<le> 0.02 \<and>
       (stationary \<longrightarrow>
          gyro_bias_x s' = (1 - alpha) * gyro_bias_x s + alpha * gx_raw \<and>
          gyro_bias_y s' = (1 - alpha) * gyro_bias_y s + alpha * gy_raw \<and>
          gyro_bias_z s' = (1 - alpha) * gyro_bias_z s + alpha * gz_raw \<and>
          between (gyro_bias_x s) gx_raw (gyro_bias_x s') \<and>
          between (gyro_bias_y s) gy_raw (gyro_bias_y s') \<and>
          between (gyro_bias_z s) gz_raw (gyro_bias_z s') \<and>
          \<bar>gyro_bias_x s' - gyro_bias_x s\<bar> \<le> 0.02 * \<bar>gx_raw - gyro_bias_x s\<bar> \<and>
          \<bar>gyro_bias_y s' - gyro_bias_y s\<bar> \<le> 0.02 * \<bar>gy_raw - gyro_bias_y s\<bar> \<and>
          \<bar>gyro_bias_z s' - gyro_bias_z s\<bar> \<le> 0.02 * \<bar>gz_raw - gyro_bias_z s\<bar>) \<and>
       (\<not> stationary \<longrightarrow> biases s' = biases s)) \<and>
   (key2 \<or> accel_read = None \<or> gyro_read = None \<longrightarrow>
      biases (snd (action_test_gyro_tick key2 accel_read gyro_read now s)) = biases s)"
  unfolding Let_def
  by (intro conjI trim_aux [THEN conjunct1] trim_aux [THEN conjunct2, THEN conjunct1]
      trim_aux [THEN conjunct2, THEN conjunct2, THEN conjunct1]
      trim_aux [THEN conjunct2, THEN conjunct2, THEN conjunct2, THEN conjunct1]
      trim_aux [THEN conjunct2, THEN conjunct2, THEN conjunct2, THEN conjunct2])
    (simp add: tick_skip)


theorem adaptive_bias_trim_witness:
  "stationary_test (0 - 0) (0 - 0) (1 - 0) (130 / 131 - 0) (0 - 0) (0 - 0) \<and>
   gyro_bias_x
     (snd (action_test_gyro_tick False
        (Some \<lparr>sd_x = 0, sd_y = 0, sd_z = 8192\<rparr>) (Some \<lparr>sd_x = 65, sd_y = 0, sd_z = 0\<rparr>)
        10000
        \<lparr>ahrs_filter = madgwick_init 100 (1 / 10),
         gyro_bias_x = 0, gyro_bias_y = 0, gyro_bias_z = 0,
         accel_bias_x = 0, accel_bias_y = 0, accel_bias_z = 0,
         last_update = 0, lcd_attitude = None\<rparr>)) = 8 / 10000 * (130 / 131)"
  using adaptive_bias_trim
    [of "\<lparr>ahrs_filter = madgwick_init 100 (1 / 10),
          gyro_bias_x = 0, gyro_bias_y = 0, gyro_bias_z = 0,
          accel_bias_x = 0, accel_bias_y = 0, accel_bias_z = 0,
          last_update = 0, lcd_attitude = None\<rparr>"
        10000 "\<lparr>sd_x = 0, sd_y = 0, sd_z = 8192\<rparr>" "\<lparr>sd_x = 65, sd_y = 0, sd_z = 0\<rparr>"
        True None None]
  by (simp add: Let_def stationary_test_def isfinite_def FLT_MAX_def fabsf_def sqrtf_def
      icm20948_accel_to_g_def icm20948_gyro_to_dps_def range_defs tick_dt_def
      absolute_time_diff_us_def bias_alpha_of_def)

lemma indicator_skip:
  "attitude_indicator_tick False now_us None mag_read t =
     (True,
      if sint (now_us - next_tick_us t) < 0 then t
      else t\<lparr>next_tick_us := now_us + ucast LOOP_US, last_update_us := now_us\<rparr>)"
  by (simp add: attitude_indicator_tick_def Let_def)

lemma tick_gate:
  fixes s :: ahrs and accel gyro :: SensorData and now :: "64 word"
  defines "gx0 \<equiv> icm20948_gyro_to_dps (sd_x gyro) GYRO_RANGE_500DPS - gyro_bias_x s"
    and "gy0 \<equiv> icm20948_gyro_to_dps (sd_y gyro) GYRO_RANGE_500DPS - gyro_bias_y s"
    and "gz0 \<equiv> icm20948_gyro_to_dps (sd_z gyro) GYRO_RANGE_500DPS - gyro_bias_z s"
  assumes "\<not> (isfinite gx0 \<and> isfinite gy0 \<and> isfinite gz0 \<and>
              \<not> fabsf gx0 > 2000 \<and> \<not> fabsf gy0 > 2000 \<and> \<not> fabsf gz0 > 2000)"
  shows "ahrs_filter (snd (action_test_gyro_tick False (Some accel) (Some gyro) now s)) = ahrs_filter s"
  using assms(4) unfolding gx0_def gy0_def gz0_def
  by (auto simp: action_test_gyro_tick_def Let_def)

lemma tick_filter:
  fixes s :: ahrs and accel gyro :: SensorData and now :: "64 word"
  defines "dt \<equiv> tick_dt (last_update s) now"
    and "ax \<equiv> icm20948_accel_to_g (sd_x accel) ACCEL_RANGE_4G - accel_bias_x s"
    and "ay \<equiv> icm20948_accel_to_g (sd_y accel) ACCEL_RANGE_4G - accel_bias_y s"
    and "az \<equiv> icm20948_accel_to_g (sd_z accel) ACCEL_RANGE_4G - accel_bias_z s"
    and "gx_raw \<equiv> icm20948_gyro_to_dps (sd_x gyro) GYRO_RANGE_500DPS"
    and "gy_raw \<equiv> icm20948_gyro_to_dps (sd_y gyro) GYRO_RANGE_500DPS"
    and "gz_raw \<equiv> icm20948_gyro_to_dps (sd_z gyro) GYRO_RANGE_500DPS"
    and "s' \<equiv> snd (action_test_gyro_tick False (Some accel) (Some gyro) now s)"
  defines "gz \<equiv> (if fabsf (gz_raw - gyro_bias_z s') < 0.15 then 0 else gz_raw - gyro_bias_z s')"
  defines "upd \<equiv> madgwick_update_imu ((ahrs_filter s)\<lparr>sample_freq := 1 / dt, inv_sample_freq := dt\<rparr>)
             ((gx_raw - gyro_bias_x s') * pi / 180) ((gy_raw - gyro_bias_y s') * pi / 180)
             (gz * pi / 180) ax ay az"
  assumes g: "isfinite (gx_raw - gyro_bias_x s)" "isfinite (gy_raw - gyro_bias_y s)"
      "isfinite (gz_raw - gyro_bias_z s)" "\<not> fabsf (gx_raw - gyro_bias_x s) > 2000"
      "\<not> fabsf (gy_raw - gyro_bias_y s) > 2000" "\<not> fabsf (gz_raw - gyro_bias_z s) > 2000"
  shows "ahrs_filter s' =
           (if \<not> isfinite (- madgwick_get_roll_deg upd) \<or> \<not> isfinite (madgwick_get_pitch_deg upd)
            then madgwick_init 100 0.10 else upd)"
proof -
  define st where "st = stationary_test ax ay az (gx_raw - gyro_bias_x s) (gy_raw - gyro_bias_y s)
          (gz_raw - gyro_bias_z s)"
  define alpha where "alpha = bias_alpha_of dt"
  have b: "biases s' =
      (if st
       then ((1 - alpha) * gyro_bias_x s + alpha * gx_raw,
             (1 - alpha) * gyro_bias_y s + alpha * gy_raw,
             (1 - alpha) * gyro_bias_z s + alpha * gz_raw)
       else biases s)"
    using tick_biases [of accel gyro now s]
    by (simp only: Let_def s'_def st_def alpha_def dt_def ax_def ay_def az_def
        gx_raw_def gy_raw_def gz_raw_def)
  show ?thesis
  proof (cases st)
    case True
    have bs: "gyro_bias_x s' = (1 - alpha) * gyro_bias_x s + alpha * gx_raw"
      "gyro_bias_y s' = (1 - alpha) * gyro_bias_y s + alpha * gy_raw"
      "gyro_bias_z s' = (1 - alpha) * gyro_bias_z s + alpha * gz_raw"
      using b True by (simp_all add: biases_def)
    show ?thesis
      unfolding upd_def gz_def bs
      using g True
      unfolding s'_def st_def alpha_def dt_def ax_def ay_def az_def gx_raw_def gy_raw_def gz_raw_def
      by (simp add: action_test_gyro_tick_def Let_def)
  next
    case False
    have bs: "gyro_bias_x s' = gyro_bias_x s" "gyro_bias_y s' = gyro_bias_y s"
      "gyro_bias_z s' = gyro_bias_z s"
      using b False by (simp_all add: biases_def)
    show ?thesis
      unfolding upd_def gz_def bs
      using g False
      unfolding s'_def st_def alpha_def dt_def ax_def ay_def az_def gx_raw_def gy_raw_def gz_raw_def
      by (simp add: action_test_gyro_tick_def Let_def)
  qed
qed


lemma indicator_filter:
  "\<not> sint (now_us - next_tick_us t) < 0 \<Longrightarrow>
   ind_filter (snd (attitude_indicator_tick False now_us (Some (accel, gyro)) mag_read t)) =
     (let dt = run_dt (last_update_us t) now_us;
          ax = icm20948_accel_to_g (sd_x accel) ACCEL_RANGE_4G;
          ay = icm20948_accel_to_g (sd_y accel) ACCEL_RANGE_4G;
          az = icm20948_accel_to_g (sd_z accel) ACCEL_RANGE_4G;
          gx = icm20948_gyro_to_dps (sd_x gyro) GYRO_RANGE_500DPS - gx_bias t;
          gy = icm20948_gyro_to_dps (sd_y gyro) GYRO_RANGE_500DPS - gy_bias t;
          gz = icm20948_gyro_to_dps (sd_z gyro) GYRO_RANGE_500DPS - gz_bias t;
          anorm2 = ax * ax + ay * ay + az * az;
          accel_valid = (anorm2 > 0.8 \<and> anorm2 < 1.2);
          flt = (ind_filter t)\<lparr>inv_sample_freq' := dt, sample_freq' := 1 / dt\<rparr>
      in case mag_read of
           Some mag \<Rightarrow>
             madgwick_update_marg flt gx gy gz
               (if accel_valid then ax else 0) (if accel_valid then ay else 0)
               (if accel_valid then az else 0)
               (icm20948_mag_to_ut (sd_y mag)) (icm20948_mag_to_ut (sd_x mag))
               (icm20948_mag_to_ut (sd_z mag))
         | None \<Rightarrow>
             madgwick_update_imu' flt gx gy gz
               (if accel_valid then ax else 0) (if accel_valid then ay else 0)
               (if accel_valid then az else 0))"
  by (simp add: attitude_indicator_tick_def show_keeps_filter indicator_fuse_def Let_def
      split: option.split)

lemma indicator_filter_dt:
  "\<not> sint (now_us - next_tick_us t) < 0 \<Longrightarrow>
   inv_sample_freq' (ind_filter (snd (attitude_indicator_tick False now_us (Some (accel, gyro)) mag_read t))) =
     run_dt (last_update_us t) now_us"
  by (simp add: attitude_indicator_tick_def show_keeps_filter fuse_filter_dt Let_def)

lemma indicator_idle:
  "key2 \<or> sint (now_us - next_tick_us t) < 0 \<or> imu_read = None \<Longrightarrow>
   ind_filter (snd (attitude_indicator_tick key2 now_us imu_read mag_read t)) = ind_filter t"
  by (auto simp: attitude_indicator_tick_def Let_def)

text \<open>
  C6, as amended. In the loop of \<^verbatim>\<open>action_test_gyro\<close> the measured interval is replaced by
  0.01 s when it is not positive or exceeds 0.2 s, and is kept otherwise. An iteration
  whose two reads succeed and whose rate checks pass runs \<^verbatim>\<open>madgwick_update_imu\<close> on the
  filter with \<^verbatim>\<open>inv_sample_freq\<close> set to this interval and \<^verbatim>\<open>sample_freq\<close> to its inverse,
  and the result is the filter after the iteration, unless its roll or pitch is not finite,
  where the filter is initialised anew. In the loop of \<^verbatim>\<open>attitude_indicator_run\<close> the
  measured interval is clamped into [0.001 s, 0.05 s], and 0.01 s is used only while no
  previous timestamp exists. An iteration that is due and whose read succeeds runs the
  9-DOF or the 6-DOF update on the filter with \<^verbatim>\<open>inv_sample_freq\<close> set to this interval
  and \<^verbatim>\<open>sample_freq\<close> to its inverse, and the filter holds this interval afterwards. In
  both loops the interval is positive and at most 0.2 s, and an iteration that does not
  reach the update leaves the filter as it was.
\<close>

theorem tick_interval_validated:
  "(let measured = real_of_int (absolute_time_diff_us (last_update s) now) / 1000000;
        dt = tick_dt (last_update s) now;
        ax = icm20948_accel_to_g (sd_x accel) ACCEL_RANGE_4G - accel_bias_x s;
        ay = icm20948_accel_to_g (sd_y accel) ACCEL_RANGE_4G - accel_bias_y s;
        az = icm20948_accel_to_g (sd_z accel) ACCEL_RANGE_4G - accel_bias_z s;
        gx_raw = icm20948_gyro_to_dps (sd_x gyro) GYRO_RANGE_500DPS;
        gy_raw = icm20948_gyro_to_dps (sd_y gyro) GYRO_RANGE_500DPS;
        gz_raw = icm20948_gyro_to_dps (sd_z gyro) GYRO_RANGE_500DPS;
        gates = (isfinite (gx_raw - gyro_bias_x s) \<and> isfinite (gy_raw - gyro_bias_y s) \<and>
                 isfinite (gz_raw - gyro_bias_z s) \<and> \<not> fabsf (gx_raw - gyro_bias_x s) > 2000 \<and>
                 \<not> fabsf (gy_raw - gyro_bias_y s) > 2000 \<and> \<not> fabsf (gz_raw - gyro_bias_z s) > 2000);
        s' = snd (action_test_gyro_tick False (Some accel) (Some gyro) now s);
        gz = (if fabsf (gz_raw - gyro_bias_z s') < 0.15 then 0 else gz_raw - gyro_bias_z s');
        upd = madgwick_update_imu ((ahrs_filter s)\<lparr>sample_freq := 1 / dt, inv_sample_freq := dt\<rparr>)
                ((gx_raw - gyro_bias_x s') * pi / 180) ((gy_raw - gyro_bias_y s') * pi / 180)
                (gz * pi / 180) ax ay az
    in dt = (if measured \<le> 0 \<or> measured > 0.2 then 0.01 else measured) \<and>
       0 < dt \<and> dt \<le> 0.2 \<and>
       inv_sample_freq upd = dt \<and>
       (gates \<longrightarrow>
          ahrs_filter s' =
            (if \<not> isfinite (- madgwick_get_roll_deg upd) \<or> \<not> isfinite (madgwick_get_pitch_deg upd)
             then madgwick_init 100 0.10 else upd)) \<and>
       (\<not> gates \<longrightarrow> ahrs_filter s' = ahrs_filter s)) \<and>
   (key2 \<or> accel_read = None \<or> gyro_read = None \<longrightarrow>
      ahrs_filter (snd (action_test_gyro_tick key2 accel_read gyro_read now s)) = ahrs_filter s) \<and>
   (let dt = run_dt (last_update_us t) now_us;
        t' = snd (attitude_indicator_tick False now_us (Some (accel, gyro)) mag_read t);
        ax = icm20948_accel_to_g (sd_x accel) ACCEL_RANGE_4G;
        ay = icm20948_accel_to_g (sd_y accel) ACCEL_RANGE_4G;
        az = icm20948_accel_to_g (sd_z accel) ACCEL_RANGE_4G;
        gx = icm20948_gyro_to_dps (sd_x gyro) GYRO_RANGE_500DPS - gx_bias t;
        gy = icm20948_gyro_to_dps (sd_y gyro) GYRO_RANGE_500DPS - gy_bias t;
        gz = icm20948_gyro_to_dps (sd_z gyro) GYRO_RANGE_500DPS - gz_bias t;
        anorm2 = ax * ax + ay * ay + az * az;
        accel_valid = (anorm2 > 0.8 \<and> anorm2 < 1.2);
        flt = (ind_filter t)\<lparr>inv_sample_freq' := dt, sample_freq' := 1 / dt\<rparr>
    in dt = (if last_update_us t \<noteq> 0
             then min (max (real (unat (now_us - last_update_us t)) / 1000000) 0.001) 0.05
             else 0.01) \<and>
       0 < dt \<and> dt \<le> 0.2 \<and>
       (\<not> sint (now_us - next_tick_us t) < 0 \<longrightarrow>
          inv_sample_freq' (ind_filter t') = dt \<and>
          ind_filter t' =
            (case mag_read of
               Some mag \<Rightarrow>
                 madgwick_update_marg flt gx gy gz
                   (if accel_valid then ax else 0) (if accel_valid then ay else 0)
                   (if accel_valid then az else 0)
                   (icm20948_mag_to_ut (sd_y mag)) (icm20948_mag_to_ut (sd_x mag))
                   (icm20948_mag_to_ut (sd_z mag))
             | None \<Rightarrow>
                 madgwick_update_imu' flt gx gy gz
                   (if accel_valid then ax else 0) (if accel_valid then ay else 0)
                   (if accel_valid then az else 0)))) \<and>
   (key2 \<or> sint (now_us - next_tick_us t) < 0 \<or> imu_read = None \<longrightarrow>
      ind_filter (snd (attitude_indicator_tick key2 now_us imu_read mag_read t)) = ind_filter t)"
proof -
  have a1: "tick_dt (last_update s) now =
      (if real_of_int (absolute_time_diff_us (last_update s) now) / 1000000 \<le> 0 \<or>
          real_of_int (absolute_time_diff_us (last_update s) now) / 1000000 > 0.2
       then 0.01 else real_of_int (absolute_time_diff_us (last_update s) now) / 1000000)"
    by (simp add: tick_dt_def Let_def)
  have b1: "run_dt (last_update_us t) now_us =
      (if last_update_us t \<noteq> 0
       then min (max (real (unat (now_us - last_update_us t)) / 1000000) 0.001) 0.05
       else 0.01)"
    by (simp add: run_dt_eq)
  have b2: "0 < run_dt (last_update_us t) now_us \<and> run_dt (last_update_us t) now_us \<le> 0.2"
    using run_dt_range [of "last_update_us t" now_us] by simp
  have a4: "key2 \<or> accel_read = None \<or> gyro_read = None \<longrightarrow>
      ahrs_filter (snd (action_test_gyro_tick key2 accel_read gyro_read now s)) = ahrs_filter s"
    by (simp add: tick_skip)
  have b4: "key2 \<or> sint (now_us - next_tick_us t) < 0 \<or> imu_read = None \<longrightarrow>
      ind_filter (snd (attitude_indicator_tick key2 now_us imu_read mag_read t)) = ind_filter t"
    using indicator_idle by blast
  show ?thesis
    unfolding Let_def
    apply (intro conjI impI)
    subgoal by (rule a1)
    subgoal using tick_dt_range by blast
    subgoal using tick_dt_range by blast
    subgoal by (simp add: update_imu_keeps_dt)
    subgoal by (rule tick_filter) simp_all
    subgoal by (rule tick_gate) simp
    subgoal using a4 by blast
    subgoal by (rule b1)
    subgoal using b2 by blast
    subgoal using b2 by blast
    subgoal by (rule indicator_filter_dt)
    subgoal using indicator_filter [of now_us t accel gyro mag_read] by (simp add: Let_def)
    subgoal using b4 by blast
    done
qed

theorem tick_interval_validated_witness:
  "tick_dt 1000000 1020000 = 0.02 \<and> tick_dt 1000000 1300000 = 0.01 \<and>
   (ahrs_filter (snd (action_test_gyro_tick False
        (Some \<lparr>sd_x = 0, sd_y = 0, sd_z = 8192\<rparr>) (Some \<lparr>sd_x = 65, sd_y = 0, sd_z = 0\<rparr>)
        1020000
        \<lparr>ahrs_filter = madgwick_init 100 (1 / 10),
         gyro_bias_x = 0, gyro_bias_y = 0, gyro_bias_z = 0,
         accel_bias_x = 0, accel_bias_y = 0, accel_bias_z = 0,
         last_update = 1000000, lcd_attitude = None\<rparr>)) = madgwick_init 100 0.10 \<or>
    inv_sample_freq (ahrs_filter (snd (action_test_gyro_tick False
        (Some \<lparr>sd_x = 0, sd_y = 0, sd_z = 8192\<rparr>) (Some \<lparr>sd_x = 65, sd_y = 0, sd_z = 0\<rparr>)
        1020000
        \<lparr>ahrs_filter = madgwick_init 100 (1 / 10),
         gyro_bias_x = 0, gyro_bias_y = 0, gyro_bias_z = 0,
         accel_bias_x = 0, accel_bias_y = 0, accel_bias_z = 0,
         last_update = 1000000, lcd_attitude = None\<rparr>))) = 0.02) \<and>
   inv_sample_freq' (ind_filter (snd (attitude_indicator_tick False 1020000
      (Some (\<lparr>sd_x = 0, sd_y = 0, sd_z = 8192\<rparr>, \<lparr>sd_x = 65, sd_y = 0, sd_z = 0\<rparr>)) None
      \<lparr>ind_filter = madgwick_init' 100 0.15, gx_bias = 0, gy_bias = 0, gz_bias = 0,
       smooth_roll = 0, smooth_pitch = 0, next_tick_us = 1010000, last_update_us = 1000000,
       display_counter = 0, lcd_drawn = None\<rparr>))) = 0.02"
proof -
  let ?s = "\<lparr>ahrs_filter = madgwick_init 100 (1 / 10),
         gyro_bias_x = 0, gyro_bias_y = 0, gyro_bias_z = 0,
         accel_bias_x = 0, accel_bias_y = 0, accel_bias_z = 0,
         last_update = 1000000, lcd_attitude = None\<rparr>"
  let ?t = "\<lparr>ind_filter = madgwick_init' 100 0.15, gx_bias = 0, gy_bias = 0, gz_bias = 0,
       smooth_roll = 0, smooth_pitch = 0, next_tick_us = 1010000, last_update_us = 1000000,
       display_counter = 0, lcd_drawn = None\<rparr>"
  let ?a = "\<lparr>sd_x = 0, sd_y = 0, sd_z = 8192\<rparr>"
  let ?g = "\<lparr>sd_x = 65, sd_y = 0, sd_z = 0\<rparr>"
  note a = tick_interval_validated [where s = ?s and now = 1020000 and accel = ?a and gyro = ?g
      and ?key2.0 = True and accel_read = None and gyro_read = None and t = ?t
      and now_us = 1020000 and mag_read = None and imu_read = None, unfolded Let_def]
  note b = tick_interval_validated [where s = ?s and now = 1300000 and accel = ?a and gyro = ?g
      and ?key2.0 = True and accel_read = None and gyro_read = None and t = ?t
      and now_us = 1020000 and mag_read = None and imu_read = None, unfolded Let_def]
  have g: "isfinite (icm20948_gyro_to_dps (sd_x ?g) GYRO_RANGE_500DPS - gyro_bias_x ?s) \<and>
      isfinite (icm20948_gyro_to_dps (sd_y ?g) GYRO_RANGE_500DPS - gyro_bias_y ?s) \<and>
      isfinite (icm20948_gyro_to_dps (sd_z ?g) GYRO_RANGE_500DPS - gyro_bias_z ?s) \<and>
      \<not> fabsf (icm20948_gyro_to_dps (sd_x ?g) GYRO_RANGE_500DPS - gyro_bias_x ?s) > 2000 \<and>
      \<not> fabsf (icm20948_gyro_to_dps (sd_y ?g) GYRO_RANGE_500DPS - gyro_bias_y ?s) > 2000 \<and>
      \<not> fabsf (icm20948_gyro_to_dps (sd_z ?g) GYRO_RANGE_500DPS - gyro_bias_z ?s) > 2000"
    by (simp add: icm20948_gyro_to_dps_def range_defs isfinite_def FLT_MAX_def fabsf_def)
  have d1: "tick_dt 1000000 1020000 = 0.02"
    using a [THEN conjunct1, THEN conjunct1] by (simp add: absolute_time_diff_us_def)
  have d2: "tick_dt 1000000 1300000 = 0.01"
    using b [THEN conjunct1, THEN conjunct1] by (simp add: absolute_time_diff_us_def)
  have pick: "\<And>(F::MadgwickFilter) C I U d.
      F = (if C then I else U) \<Longrightarrow> inv_sample_freq U = d \<Longrightarrow> F = I \<or> inv_sample_freq F = d"
    by auto
  have l: "last_update ?s = 1000000"
    by simp
  have f: "ahrs_filter (snd (action_test_gyro_tick False (Some ?a) (Some ?g) 1020000 ?s)) =
      madgwick_init 100 0.10 \<or>
      inv_sample_freq (ahrs_filter (snd (action_test_gyro_tick False (Some ?a) (Some ?g) 1020000 ?s))) =
      0.02"
    using pick [OF a [THEN conjunct1, THEN conjunct2, THEN conjunct2, THEN conjunct2, THEN conjunct2,
         THEN conjunct1, rule_format, OF g]
       a [THEN conjunct1, THEN conjunct2, THEN conjunct2, THEN conjunct2, THEN conjunct1]]
    unfolding l d1 .
  have due: "\<not> sint (1020000 - next_tick_us ?t) < 0"
    by simp
  have r: "run_dt (last_update_us ?t) 1020000 = 0.02"
    by (simp add: run_dt_eq)
  have i: "inv_sample_freq' (ind_filter (snd (attitude_indicator_tick False 1020000
      (Some (?a, ?g)) None ?t))) = 0.02"
    using a [THEN conjunct2, THEN conjunct2, THEN conjunct1, THEN conjunct2, THEN conjunct2,
        THEN conjunct2, rule_format, OF due, THEN conjunct1]
    unfolding r .
  show ?thesis
    using d1 d2 f i by blast
qed

text \<open>
  C6 as stated fails in the loop of \<^verbatim>\<open>attitude_indicator_run\<close>. The previous iteration
  ran at 1.00 s and set the next tick to 1.01 s; the loop is then held up and the next
  iteration runs at 1.30 s. It is due, its measured interval is 0.3 s, above 0.2 s, and
  the filter integrates with 0.05 s, not with the nominal 0.01 s.
\<close>

theorem run_dt_not_nominal:
  "real (unat (1300000 - 1000000 :: 64 word)) / 1000000 > 0.2 \<and>
   \<not> sint (1300000 - 1010000 :: 64 word) < 0 \<and>
   inv_sample_freq' (ind_filter (snd (attitude_indicator_tick False 1300000
      (Some (\<lparr>sd_x = 0, sd_y = 0, sd_z = 8192\<rparr>, \<lparr>sd_x = 65, sd_y = 0, sd_z = 0\<rparr>)) None
      \<lparr>ind_filter = madgwick_init' 100 0.15, gx_bias = 0, gy_bias = 0, gz_bias = 0,
       smooth_roll = 0, smooth_pitch = 0, next_tick_us = 1010000, last_update_us = 1000000,
       display_counter = 0, lcd_drawn = None\<rparr>))) = 0.05 \<and>
   (0.05 :: float) \<noteq> 0.01"
  by (simp add: attitude_indicator_tick_def Let_def show_keeps_filter fuse_filter_dt run_dt_eq)

text \<open>
  C7. An iteration in which the accelerometer or gyroscope read reports failure leaves
  every variable of the loop of \<^verbatim>\<open>action_test_gyro\<close> as it was (filter, biases, timestamp
  and the attitude on the LCD) and the loop goes on. In the loop of
  \<^verbatim>\<open>attitude_indicator_run\<close> such an iteration leaves the filter, the gyroscope biases,
  the smoothed roll and pitch, the display counter and the drawn attitude as they were,
  and the loop goes on; only the scheduler's two timestamps may move.
\<close>

theorem failed_read_skips_tick:
  "action_test_gyro_tick False None gyro_read now s = (True, s) \<and>
   action_test_gyro_tick False (Some accel) None now s = (True, s) \<and>
   (let r = attitude_indicator_tick False now_us None mag_read t; t' = snd r
    in fst r = True \<and>
       ind_filter t' = ind_filter t \<and>
       gx_bias t' = gx_bias t \<and> gy_bias t' = gy_bias t \<and> gz_bias t' = gz_bias t \<and>
       smooth_roll t' = smooth_roll t \<and> smooth_pitch t' = smooth_pitch t \<and>
       display_counter t' = display_counter t \<and> lcd_drawn t' = lcd_drawn t)"
  by (simp add: tick_skip indicator_skip Let_def)


theorem failed_read_skips_tick_witness:
  "action_test_gyro_tick False None None 10000
     \<lparr>ahrs_filter = madgwick_init 100 (1 / 10),
      gyro_bias_x = 1, gyro_bias_y = 2, gyro_bias_z = 3,
      accel_bias_x = 0, accel_bias_y = 0, accel_bias_z = 0,
      last_update = 0, lcd_attitude = Some (5, 6)\<rparr> =
   (True,
     \<lparr>ahrs_filter = madgwick_init 100 (1 / 10),
      gyro_bias_x = 1, gyro_bias_y = 2, gyro_bias_z = 3,
      accel_bias_x = 0, accel_bias_y = 0, accel_bias_z = 0,
      last_update = 0, lcd_attitude = Some (5, 6)\<rparr>)"
  using failed_read_skips_tick
    [of None 10000
        "\<lparr>ahrs_filter = madgwick_init 100 (1 / 10),
          gyro_bias_x = 1, gyro_bias_y = 2, gyro_bias_z = 3,
          accel_bias_x = 0, accel_bias_y = 0, accel_bias_z = 0,
          last_update = 0, lcd_attitude = Some (5, 6)\<rparr>"]
  by simp


subsection \<open>Warnings\<close>

text \<open>
  C2. The bank limit is 20 degrees when the speed is at most 85 knots and 30 degrees
  above. The telemetry line sent by \<^verbatim>\<open>send_telemetry_to_pico\<close> carries the bank warning
  \<open>|roll| > bank_limit\<close> and the pitch warning \<open>|pitch| > 20\<close>, both strict, and
  \<^verbatim>\<open>draw_attitude_indicator\<close> draws its bank and pitch boxes under the same two
  conditions. The witness evaluates the four examples of the claim (speed 80 and roll 25,
  speed 100 and roll 25, pitch 21, pitch 19) and the boundary values.
\<close>

theorem warning_thresholds:
  "bank_limit gps_data = (if speed_knots gps_data \<le> 85 then 20 else 30) \<and>
   (0 \<le> serial_fd \<longrightarrow>
      map_option line_bank_warning (send_telemetry_to_pico serial_fd gps_data attitude wifi) =
        Some (\<bar>att_roll attitude\<bar> > bank_limit gps_data) \<and>
      map_option line_pitch_warning (send_telemetry_to_pico serial_fd gps_data attitude wifi) =
        Some (\<bar>att_pitch attitude\<bar> > 20)) \<and>
   (case draw_attitude_indicator gps_data attitude display_attitude of
      (shown, pitch_box, bank_box) \<Rightarrow>
        (bank_box \<noteq> None) = (\<bar>att_roll attitude\<bar> > bank_limit gps_data) \<and>
        (pitch_box \<noteq> None) = (\<bar>att_pitch attitude\<bar> > 20))"
  by (simp add: bank_limit_def send_telemetry_to_pico_def draw_attitude_indicator_def Let_def
      fabs_def)

theorem warning_thresholds_witness:
  "map_option line_bank_warning
     (send_telemetry_to_pico 3
        \<lparr>speed_knots = 80, altitude_meters = 0, has_fix = True, satellites = 5\<rparr>
        \<lparr>att_pitch = 21, att_roll = 25\<rparr> False) = Some True \<and>
   map_option line_pitch_warning
     (send_telemetry_to_pico 3
        \<lparr>speed_knots = 80, altitude_meters = 0, has_fix = True, satellites = 5\<rparr>
        \<lparr>att_pitch = 21, att_roll = 25\<rparr> False) = Some True \<and>
   map_option line_bank_warning
     (send_telemetry_to_pico 3
        \<lparr>speed_knots = 100, altitude_meters = 0, has_fix = True, satellites = 5\<rparr>
        \<lparr>att_pitch = 19, att_roll = 25\<rparr> False) = Some False \<and>
   map_option line_pitch_warning
     (send_telemetry_to_pico 3
        \<lparr>speed_knots = 100, altitude_meters = 0, has_fix = True, satellites = 5\<rparr>
        \<lparr>att_pitch = 19, att_roll = 25\<rparr> False) = Some False \<and>
   map_option line_bank_warning
     (send_telemetry_to_pico 3
        \<lparr>speed_knots = 85, altitude_meters = 0, has_fix = True, satellites = 5\<rparr>
        \<lparr>att_pitch = 20, att_roll = - 20\<rparr> False) = Some False \<and>
   map_option line_pitch_warning
     (send_telemetry_to_pico 3
        \<lparr>speed_knots = 85, altitude_meters = 0, has_fix = True, satellites = 5\<rparr>
        \<lparr>att_pitch = 20, att_roll = - 20\<rparr> False) = Some False"
  using warning_thresholds
    [of "\<lparr>speed_knots = 80, altitude_meters = 0, has_fix = True, satellites = 5\<rparr>" 3
        "\<lparr>att_pitch = 21, att_roll = 25\<rparr>" False "\<lparr>att_pitch = 0, att_roll = 0\<rparr>"]
    warning_thresholds
    [of "\<lparr>speed_knots = 100, altitude_meters = 0, has_fix = True, satellites = 5\<rparr>" 3
        "\<lparr>att_pitch = 19, att_roll = 25\<rparr>" False "\<lparr>att_pitch = 0, att_roll = 0\<rparr>"]
    warning_thresholds
    [of "\<lparr>speed_knots = 85, altitude_meters = 0, has_fix = True, satellites = 5\<rparr>" 3
        "\<lparr>att_pitch = 20, att_roll = - 20\<rparr>" False "\<lparr>att_pitch = 0, att_roll = 0\<rparr>"]
  by (simp add: bank_limit_def)

end
